theory Spec2Isabelle
  imports Main
begin

section \<open>Python values used by pycloudmusic/music163.py\<close>

text \<open>
  The classes \<^verbatim>\<open>LoginMusic163\<close> and \<^verbatim>\<open>Music163Api\<close> of \<^verbatim>\<open>pycloudmusic/music163.py\<close>.
  A method keeps its name; a name with a leading underscore (\<^verbatim>\<open>_login\<close>, \<^verbatim>\<open>_md5\<close>,
  \<^verbatim>\<open>_post\<close>) is written with the prefix \<open>u_\<close>. A method takes the object and the
  environment and returns its result, an exception (\<open>Inl\<close>) or a value (\<open>Inr\<close>),
  together with the updated object and environment.

  Parsed JSON bodies and form data (\<^verbatim>\<open>dict[str, Any]\<close>). A dict is the list of its
  items in insertion order, looked up with \<open>map_of\<close>. Strings are byte strings: a
  Python \<^verbatim>\<open>str\<close> is represented by its UTF-8 encoding. JSON floats do not occur in
  the fields the code inspects and are left out.
\<close>

datatype json =
    JNull
  | JBool bool
  | JInt int
  | JStr string
  | JList "json list"
  | JObj "(string \<times> json) list"

subsection \<open>Exceptions\<close>

text \<open>
  Modelled from the spec: the module \<^verbatim>\<open>pycloudmusic.error\<close> (the classes
  \<^verbatim>\<open>Music163BadCode\<close>, \<^verbatim>\<open>Music163BadData\<close>, \<^verbatim>\<open>CannotConnectApi\<close>) is not among the
  source files. Following the spec, the error envelope \<^verbatim>\<open>Music163BadCode\<close> carries the
  numeric code (its attribute \<^verbatim>\<open>code\<close>, read by \<^verbatim>\<open>qr\<close>) and the raw response body,
  and \<^verbatim>\<open>Music163BadData\<close> carries the body.

  The spec has a rejected login raised to the caller at once as this typed error, and
  \<^verbatim>\<open>qr\<close> catches \<^verbatim>\<open>Music163BadCode\<close> around \<^verbatim>\<open>qr_check\<close>, which is \<^verbatim>\<open>_login\<close>, whose
  handler catches every exception deriving from \<^verbatim>\<open>Exception\<close>. So
  \<^verbatim>\<open>Music163BadCode\<close> does not derive from \<^verbatim>\<open>Exception\<close>: it derives from
  \<^verbatim>\<open>BaseException\<close> directly. \<^verbatim>\<open>CannotConnectApi\<close> and \<^verbatim>\<open>Music163BadData\<close> are taken
  as ordinary exception classes; they are never raised inside the \<^verbatim>\<open>try\<close> block of
  \<^verbatim>\<open>_login\<close>, so their base class plays no part below.

  \<^verbatim>\<open>CannotConnectApi\<close> is raised by \<^verbatim>\<open>_login\<close> with the message
  \<^verbatim>\<open>f"... {RECONNECTION} ... {url} err: {err}"\<close>; the three interpolated values are kept
  as the constructor's arguments instead of the formatted text.

  \<open>ClientError\<close> stands for any other exception deriving from \<^verbatim>\<open>Exception\<close> that the
  HTTP session can raise (network errors, JSON decoding errors); \<open>CancelledError\<close> for
  the exceptions deriving from \<^verbatim>\<open>BaseException\<close> only (\<^verbatim>\<open>asyncio.CancelledError\<close>,
  \<^verbatim>\<open>KeyboardInterrupt\<close>).
\<close>

datatype exn =
    Music163BadCode json json
  | Music163BadData json
  | CannotConnectApi int string exn
  | KeyError string
  | IndexError
  | TypeError
  | AttributeError
  | ClientError string
  | CancelledError

datatype exn_class =
    BaseException_c
  | Exception_c
  | Music163BadCode_c
  | Music163BadData_c
  | CannotConnectApi_c
  | LookupError_c
  | KeyError_c
  | IndexError_c
  | TypeError_c
  | AttributeError_c
  | ClientError_c
  | CancelledError_c

fun class_of :: "exn \<Rightarrow> exn_class" where
  "class_of (Music163BadCode c b) = Music163BadCode_c"
| "class_of (Music163BadData b) = Music163BadData_c"
| "class_of (CannotConnectApi n u e) = CannotConnectApi_c"
| "class_of (KeyError k) = KeyError_c"
| "class_of IndexError = IndexError_c"
| "class_of TypeError = TypeError_c"
| "class_of AttributeError = AttributeError_c"
| "class_of (ClientError m) = ClientError_c"
| "class_of CancelledError = CancelledError_c"

text \<open>The method resolution order of each class: the class itself and its ancestors.\<close>

fun mro :: "exn_class \<Rightarrow> exn_class list" where
  "mro BaseException_c = [BaseException_c]"
| "mro Exception_c = [Exception_c, BaseException_c]"
| "mro Music163BadCode_c = [Music163BadCode_c, BaseException_c]"
| "mro Music163BadData_c = [Music163BadData_c, Exception_c, BaseException_c]"
| "mro CannotConnectApi_c = [CannotConnectApi_c, Exception_c, BaseException_c]"
| "mro LookupError_c = [LookupError_c, Exception_c, BaseException_c]"
| "mro KeyError_c = [KeyError_c, LookupError_c, Exception_c, BaseException_c]"
| "mro IndexError_c = [IndexError_c, LookupError_c, Exception_c, BaseException_c]"
| "mro TypeError_c = [TypeError_c, Exception_c, BaseException_c]"
| "mro AttributeError_c = [AttributeError_c, Exception_c, BaseException_c]"
| "mro ClientError_c = [ClientError_c, Exception_c, BaseException_c]"
| "mro CancelledError_c = [CancelledError_c, BaseException_c]"

definition isinstance :: "exn \<Rightarrow> exn_class \<Rightarrow> bool" where
  "isinstance e c = (c \<in> set (mro (class_of e)))"

text \<open>
  The expression after \<^verbatim>\<open>except\<close> is an ordinary Python expression. Its operands in
  \<^verbatim>\<open>_login\<close> are classes and the result of \<^verbatim>\<open>not\<close>; a class object is truthy,
  \<^verbatim>\<open>a or b\<close> is \<^verbatim>\<open>a\<close> when \<^verbatim>\<open>a\<close> is truthy and \<^verbatim>\<open>b\<close> otherwise, and \<^verbatim>\<open>not a\<close> is a
  bool. Matching an exception against something that is not a class raises
  \<^verbatim>\<open>TypeError\<close>.
\<close>

datatype pyobj = Class exn_class | PyBool bool

fun truthy :: "pyobj \<Rightarrow> bool" where
  "truthy (Class c) = True"
| "truthy (PyBool b) = b"

definition py_or :: "pyobj \<Rightarrow> pyobj \<Rightarrow> pyobj" where
  "py_or a b = (if truthy a then a else b)"

definition py_not :: "pyobj \<Rightarrow> pyobj" where
  "py_not a = PyBool (\<not> truthy a)"

fun except_matches :: "pyobj \<Rightarrow> exn \<Rightarrow> exn + bool" where
  "except_matches (Class c) e = Inr (isinstance e c)"
| "except_matches (PyBool b) e = Inl TypeError"

subsection \<open>Operations on parsed JSON\<close>

text \<open>\<^verbatim>\<open>d[k]\<close> with a string key.\<close>

fun getitem :: "json \<Rightarrow> string \<Rightarrow> exn + json" where
  "getitem (JObj kvs) k = (case map_of kvs k of None \<Rightarrow> Inl (KeyError k) | Some v \<Rightarrow> Inr v)"
| "getitem j k = Inl TypeError"

text \<open>\<^verbatim>\<open>x in [n1, n2, ...]\<close> for a list of int literals.\<close>

definition py_in :: "json \<Rightarrow> int list \<Rightarrow> bool" where
  "py_in x ns = (x \<in> set (map JInt ns))"

section \<open>Session cookies\<close>

text \<open>
  \<^verbatim>\<open>http.cookies\<close> of the standard library: a \<^verbatim>\<open>SimpleCookie\<close> is a dict from cookie
  names to \<^verbatim>\<open>Morsel\<close>s, and \<^verbatim>\<open>str(morsel)\<close> is \<^verbatim>\<open>"Set-Cookie: "\<close> followed by
  \<^verbatim>\<open>key=coded_value\<close> and the rendered attributes that are set, joined by \<^verbatim>\<open>"; "\<close>.
\<close>

record Morsel =
  key :: string
  coded_value :: string
  attrs :: "string list"

type_synonym SimpleCookie = "(string \<times> Morsel) list"

text \<open>\<^verbatim>\<open>sep.join(xs)\<close>.\<close>

fun join :: "string \<Rightarrow> string list \<Rightarrow> string" where
  "join sep [] = []"
| "join sep [x] = x"
| "join sep (x # y # ys) = x @ sep @ join sep (y # ys)"

definition Morsel_str :: "Morsel \<Rightarrow> string" where
  "Morsel_str m = ''Set-Cookie: '' @ join ''; '' ((key m @ ''='' @ coded_value m) # attrs m)"

text \<open>\<^verbatim>\<open>s.lstrip(chars)\<close>: drops leading characters while they occur in \<^verbatim>\<open>chars\<close>.\<close>

definition lstrip :: "string \<Rightarrow> string \<Rightarrow> string" where
  "lstrip chars s = dropWhile (\<lambda>c. c \<in> set chars) s"

text \<open>\<^verbatim>\<open>s.split(sep, maxsplit=1)[0]\<close>: the part of \<^verbatim>\<open>s\<close> before the first \<^verbatim>\<open>sep\<close>.\<close>

fun split1_head :: "string \<Rightarrow> string \<Rightarrow> string" where
  "split1_head sep [] = []"
| "split1_head sep (c # cs) =
     (if take (length sep) (c # cs) = sep then [] else c # split1_head sep cs)"

text \<open>
  The value of \<^verbatim>\<open>cookie_data\<close> for one item, and the loop of
  \<^verbatim>\<open>_SimpleCookieToCookieStr\<close> over \<^verbatim>\<open>dict(cookie).values()\<close>.
\<close>

definition cookie_data :: "Morsel \<Rightarrow> string" where
  "cookie_data item = split1_head ''; '' (lstrip ''Set-Cookie: '' (Morsel_str item))"

fun cookie_loop :: "string \<Rightarrow> Morsel list \<Rightarrow> string" where
  "cookie_loop cookie_str [] = cookie_str"
| "cookie_loop cookie_str (item # items) =
     cookie_loop (cookie_str @ cookie_data item @ ''; '') items"

definition u_SimpleCookieToCookieStr :: "SimpleCookie \<Rightarrow> string" where
  "u_SimpleCookieToCookieStr cookie = cookie_loop [] (map snd cookie)"

section \<open>The remote service seen by the login class\<close>

text \<open>
  One HTTP exchange of \<^verbatim>\<open>_login\<close> either raises (in \<^verbatim>\<open>_get_session\<close>,
  \<^verbatim>\<open>session.post\<close> or \<^verbatim>\<open>req.json\<close>) or delivers a parsed body together with the
  response's cookies. The remote service is a script: the outcome of the n-th exchange
  of the run. The environment counts the exchanges made so far and records, in order,
  the requests posted and the calls of \<^verbatim>\<open>asyncio.sleep\<close>.

  The helpers \<^verbatim>\<open>_get_session\<close> and \<^verbatim>\<open>_get_basic_headers\<close> of \<^verbatim>\<open>pycloudmusic.ahttp\<close> are
  not among the source files; of the headers only the \<^verbatim>\<open>cookie\<close> entry, which
  \<^verbatim>\<open>_login\<close> adds itself, is recorded.
\<close>

datatype outcome = Raises exn | Response json SimpleCookie

record request =
  req_url :: string
  req_cookie :: "string option"
  req_data :: json

datatype event = Post request | Sleep int

record env =
  served :: nat
  trace :: "event list"

definition sleep :: "int \<Rightarrow> env \<Rightarrow> env" where
  "sleep t e = e\<lparr>trace := trace e @ [Sleep t]\<rparr>"

section \<open>LoginMusic163\<close>

text \<open>
  The object's fields: \<^verbatim>\<open>self.cookie\<close> (\<^verbatim>\<open>None\<close> before login) and the hash object
  \<^verbatim>\<open>self.__hl\<close>. A \<^verbatim>\<open>hashlib\<close> hash object is determined by the bytes fed to it so
  far: \<^verbatim>\<open>update\<close> appends, \<^verbatim>\<open>hexdigest\<close> returns the digest of everything fed and
  leaves the object unchanged. The digest function itself (MD5, in hexadecimal)
  belongs to the standard library and is a parameter \<open>md5_hex\<close> of the model.
\<close>

record LoginMusic163 =
  cookie :: "string option"
  hl :: string

record Music163Api =
  api_cookie :: "string option"

definition LoginMusic163_init :: "string option \<Rightarrow> LoginMusic163" where
  "LoginMusic163_init c = \<lparr>cookie = c, hl = []\<rparr>"

definition u_md5 :: "(string \<Rightarrow> string) \<Rightarrow> string \<Rightarrow> LoginMusic163 \<Rightarrow> string \<times> LoginMusic163" where
  "u_md5 md5_hex str_arg self =
     (let self' = self\<lparr>hl := hl self @ str_arg\<rparr>
      in (md5_hex (hl self'), self'))"

text \<open>
  The guard of \<^verbatim>\<open>_login\<close>'s handler, \<^verbatim>\<open>except Exception or not Music163BadCode\<close>.
\<close>

definition login_guard :: pyobj where
  "login_guard = py_or (Class Exception_c) (py_not (Class Music163BadCode_c))"

text \<open>
  What the body of the \<^verbatim>\<open>try\<close> block makes of one exchange: the exception it raises
  or the string it returns.
\<close>

definition try_result :: "outcome \<Rightarrow> exn + string" where
  "try_result out =
     (case out of
        Raises e \<Rightarrow> Inl e
      | Response body cookies \<Rightarrow>
          (case getitem body ''code'' of
             Inl e \<Rightarrow> Inl e
           | Inr c \<Rightarrow>
               if \<not> py_in c [200, 803] then Inl (Music163BadCode c body)
               else Inr (u_SimpleCookieToCookieStr cookies)))"

text \<open>
  The local variable \<^verbatim>\<open>data\<close> after the \<^verbatim>\<open>try\<close> block: the statement
  \<^verbatim>\<open>data = await req.json(content_type=None)\<close> rebinds the parameter to the parsed body
  once a body has been parsed.
\<close>

definition data_after :: "outcome \<Rightarrow> json \<Rightarrow> json" where
  "data_after out data = (case out of Raises e \<Rightarrow> data | Response body cookies \<Rightarrow> body)"

text \<open>The request one attempt posts; \<^verbatim>\<open>if self.cookie:\<close> is false for \<^verbatim>\<open>None\<close> and \<^verbatim>\<open>""\<close>.\<close>

definition login_request :: "LoginMusic163 \<Rightarrow> string \<Rightarrow> json \<Rightarrow> request" where
  "login_request self url data =
     \<lparr>req_url = ''https://music.163.com'' @ url,
      req_cookie = (case cookie self of None \<Rightarrow> None | Some c \<Rightarrow> if c = [] then None else Some c),
      req_data = data\<rparr>"

definition exchange :: "request \<Rightarrow> env \<Rightarrow> env" where
  "exchange r e = e\<lparr>served := Suc (served e), trace := trace e @ [Post r]\<rparr>"

text \<open>
  \<^verbatim>\<open>_login\<close>. \<open>RECONNECTION\<close> is the constant imported from the package's
  \<^verbatim>\<open>__init__\<close>, which is not among the source files; it is a parameter.
\<close>

function u_login ::
  "(nat \<Rightarrow> outcome) \<Rightarrow> int \<Rightarrow> LoginMusic163 \<Rightarrow> string \<Rightarrow> json \<Rightarrow> int \<Rightarrow> env \<Rightarrow> (exn + string) \<times> env"
where
  "u_login remote RECONNECTION self url data reconnection_count e =
     (let out = remote (served e);
          e' = exchange (login_request self url data) e
      in case try_result out of
           Inr cookie_str \<Rightarrow> (Inr cookie_str, e')
         | Inl err \<Rightarrow>
             (case except_matches login_guard err of
                Inl type_error \<Rightarrow> (Inl type_error, e')
              | Inr False \<Rightarrow> (Inl err, e')
              | Inr True \<Rightarrow>
                  if reconnection_count + 1 > RECONNECTION
                  then (Inl (CannotConnectApi RECONNECTION url err), e')
                  else u_login remote RECONNECTION self url (data_after out data)
                         (reconnection_count + 1) e'))"
  by pat_completeness auto
termination
  by (relation "measure (\<lambda>(remote, R, self, url, data, n, e). nat (R - n))") auto

definition email ::
  "(string \<Rightarrow> string) \<Rightarrow> (nat \<Rightarrow> outcome) \<Rightarrow> int \<Rightarrow> string \<Rightarrow> string \<Rightarrow> LoginMusic163 \<Rightarrow> env
     \<Rightarrow> (exn + string option \<times> Music163Api) \<times> LoginMusic163 \<times> env"
where
  "email md5_hex remote RECONNECTION address password self e =
     (let (digest, self1) = u_md5 md5_hex password self
      in case u_login remote RECONNECTION self1 ''/api/login''
                (JObj [(''username'', JStr address), (''password'', JStr digest),
                       (''rememberLogin'', JStr ''true'')]) 0 e of
           (Inl err, e') \<Rightarrow> (Inl err, self1, e')
         | (Inr tok, e') \<Rightarrow>
             (let self2 = self1\<lparr>cookie := Some tok\<rparr>
              in (Inr (cookie self2, \<lparr>api_cookie = cookie self2\<rparr>), self2, e')))"

text \<open>
  The arguments typed \<^verbatim>\<open>Union[str, int]\<close>, \<^verbatim>\<open>str(x)\<close> on them (the decimal digits
  of an int, with a minus sign when negative), and their value as form data.
\<close>

datatype str_or_int = PStr string | PInt int

fun str_nat :: "nat \<Rightarrow> string" where
  "str_nat n =
     (if n < 10 then [char_of (48 + n)] else str_nat (n div 10) @ [char_of (48 + n mod 10)])"

fun py_str :: "str_or_int \<Rightarrow> string" where
  "py_str (PStr s) = s"
| "py_str (PInt i) = (if i < 0 then ''-'' @ str_nat (nat (- i)) else str_nat (nat i))"

fun form_value :: "str_or_int \<Rightarrow> json" where
  "form_value (PStr s) = JStr s"
| "form_value (PInt i) = JInt i"

definition cellphone ::
  "(string \<Rightarrow> string) \<Rightarrow> (nat \<Rightarrow> outcome) \<Rightarrow> int \<Rightarrow> str_or_int \<Rightarrow> str_or_int \<Rightarrow> bool
     \<Rightarrow> str_or_int \<Rightarrow> LoginMusic163 \<Rightarrow> env
     \<Rightarrow> (exn + string option \<times> Music163Api) \<times> LoginMusic163 \<times> env"
where
  "cellphone md5_hex remote RECONNECTION phone password captcha country_code self e =
     (let (password1, self1) =
            (if \<not> captcha
             then (let (digest, s) = u_md5 md5_hex (py_str password) self in (PStr digest, s))
             else (password, self))
      in case u_login remote RECONNECTION self1 ''/api/login/cellphone''
                (JObj [(''phone'', form_value phone), (''countrycode'', form_value country_code),
                       (if captcha then ''captcha'' else ''password'', form_value password1),
                       (''rememberLogin'', JStr ''true'')]) 0 e of
           (Inl err, e') \<Rightarrow> (Inl err, self1, e')
         | (Inr tok, e') \<Rightarrow>
             (let self2 = self1\<lparr>cookie := Some tok\<rparr>
              in (Inr (cookie self2, \<lparr>api_cookie = cookie self2\<rparr>), self2, e')))"

text \<open>The path and the form data of \<^verbatim>\<open>qr_check\<close>, and the request it posts.\<close>

definition qr_request :: "LoginMusic163 \<Rightarrow> string \<Rightarrow> request" where
  "qr_request self qr_key =
     login_request self ''/api/login/qrcode/client/login''
       (JObj [(''key'', JStr qr_key), (''type'', JInt 1)])"

definition qr_check ::
  "(nat \<Rightarrow> outcome) \<Rightarrow> int \<Rightarrow> string \<Rightarrow> LoginMusic163 \<Rightarrow> env \<Rightarrow> (exn + string) \<times> env"
where
  "qr_check remote RECONNECTION qr_key self e =
     u_login remote RECONNECTION self ''/api/login/qrcode/client/login''
       (JObj [(''key'', JStr qr_key), (''type'', JInt 1)]) 0 e"

text \<open>\<^verbatim>\<open>err.code\<close> of a caught \<^verbatim>\<open>Music163BadCode\<close>.\<close>

fun err_code :: "exn \<Rightarrow> json" where
  "err_code (Music163BadCode c b) = c"
| "err_code e = JNull"

text \<open>
  \<^verbatim>\<open>qr\<close> is a \<^verbatim>\<open>while True\<close> loop; the result is \<open>None\<close> when it never leaves the
  loop. \<^verbatim>\<open>if self.cookie:\<close> is false for the empty string.
\<close>

partial_function (option) qr ::
  "(nat \<Rightarrow> outcome) \<Rightarrow> int \<Rightarrow> string \<Rightarrow> int \<Rightarrow> LoginMusic163 \<Rightarrow> env
     \<Rightarrow> ((exn + string option \<times> Music163Api) \<times> LoginMusic163 \<times> env) option"
where
  "qr remote RECONNECTION qr_key time_sleep self e =
     (case qr_check remote RECONNECTION qr_key self e of
        (Inr tok, e1) \<Rightarrow>
          (let self1 = self\<lparr>cookie := Some tok\<rparr>
           in if tok \<noteq> []
              then Some (Inr (cookie self1, \<lparr>api_cookie = cookie self1\<rparr>), self1, e1)
              else qr remote RECONNECTION qr_key time_sleep self1 (sleep time_sleep e1))
      | (Inl err, e1) \<Rightarrow>
          if isinstance err Music163BadCode_c
          then (if py_in (err_code err) [801, 802]
                then qr remote RECONNECTION qr_key time_sleep self (sleep time_sleep e1)
                else if err_code err = JInt 800
                then Some (Inr (cookie self, \<lparr>api_cookie = cookie self\<rparr>), self, e1)
                else qr remote RECONNECTION qr_key time_sleep self (sleep time_sleep e1))
          else Some (Inl err, self, e1))"

text \<open>
  A scripted remote: the listed outcomes in order, then \<open>d\<close> for every later exchange.
\<close>

definition script_of :: "outcome list \<Rightarrow> outcome \<Rightarrow> nat \<Rightarrow> outcome" where
  "script_of outs d i = (if i < length outs then outs ! i else d)"

definition env0 :: env where
  "env0 = \<lparr>served = 0, trace = []\<rparr>"

text \<open>
  The environment after \<open>k\<close> rounds of posting \<open>req\<close> and sleeping \<open>t\<close> seconds.
\<close>

definition polled :: "request \<Rightarrow> int \<Rightarrow> nat \<Rightarrow> env \<Rightarrow> env" where
  "polled req t k e =
     \<lparr>served = served e + k, trace = trace e @ concat (replicate k [Post req, Sleep t])\<rparr>"

section \<open>Music163Api\<close>

text \<open>
  Modelled from the spec: \<^verbatim>\<open>pycloudmusic.ahttp._post\<close> is not among the source files.
  Following the spec's Transport, one call either returns the parsed body or fails with
  an error. The answer is a parameter \<open>post\<close>: a function of the calls made before and
  of this call (path, cookie, form data; \<open>JNull\<close> when no data is passed). The calls
  made are recorded in order.
\<close>

type_synonym transport = "request list \<Rightarrow> request \<Rightarrow> exn + json"

definition u_post ::
  "transport \<Rightarrow> string \<Rightarrow> string option \<Rightarrow> json \<Rightarrow> request list \<Rightarrow> (exn + json) \<times> request list"
where
  "u_post post path cookie_arg data calls =
     (let r = \<lparr>req_url = path, req_cookie = cookie_arg, req_data = data\<rparr>
      in (post calls r, calls @ [r]))"

text \<open>
  Modelled from the spec: the object classes of \<^verbatim>\<open>pycloudmusic.object.music163\<close> are
  not among the source files. Following the spec they are read-only views built from
  the JSON they are given and the cookie; \<^verbatim>\<open>Music\<close> exposes its JSON as
  \<^verbatim>\<open>music_data\<close>, and none of them is iterable.
\<close>

datatype Music = Music (music_data: json) (music_cookie: "string option")

datatype My = My json "string option"

datatype PlayList = PlayList json "string option"

text \<open>
  The return type of \<^verbatim>\<open>music\<close>, \<^verbatim>\<open>Union[Music, Generator[Music, None, None]]\<close>, and
  \<^verbatim>\<open>list(x)\<close> applied to it: a single \<^verbatim>\<open>Music\<close> object is not iterable.
\<close>

datatype music_result = Single Music | Generator "Music list"

fun py_list :: "music_result \<Rightarrow> exn + Music list" where
  "py_list (Single m) = Inl TypeError"
| "py_list (Generator ms) = Inr ms"

text \<open>
  \<^verbatim>\<open>len(x)\<close>, \<^verbatim>\<open>x[0]\<close>, iteration over \<^verbatim>\<open>x\<close> and \<^verbatim>\<open>x.get(k)\<close> on parsed JSON.
  Iterating a dict yields its keys; a string is taken character by character, one
  byte each (exact for ASCII text).
\<close>

fun py_len :: "json \<Rightarrow> exn + nat" where
  "py_len (JList xs) = Inr (length xs)"
| "py_len (JObj kvs) = Inr (length kvs)"
| "py_len (JStr s) = Inr (length s)"
| "py_len j = Inl TypeError"

fun getitem0 :: "json \<Rightarrow> exn + json" where
  "getitem0 (JList []) = Inl IndexError"
| "getitem0 (JList (x # xs)) = Inr x"
| "getitem0 (JStr []) = Inl IndexError"
| "getitem0 (JStr (c # cs)) = Inr (JStr [c])"
| "getitem0 (JObj kvs) = Inl (KeyError ''0'')"
| "getitem0 j = Inl TypeError"

fun py_iter :: "json \<Rightarrow> exn + json list" where
  "py_iter (JList xs) = Inr xs"
| "py_iter (JObj kvs) = Inr (map (\<lambda>kv. JStr (fst kv)) kvs)"
| "py_iter (JStr s) = Inr (map (\<lambda>c. JStr [c]) s)"
| "py_iter j = Inl TypeError"

fun py_get :: "json \<Rightarrow> string \<Rightarrow> exn + json" where
  "py_get (JObj kvs) k = Inr (case map_of kvs k of None \<Rightarrow> JNull | Some v \<Rightarrow> v)"
| "py_get j k = Inl AttributeError"

text \<open>\<^verbatim>\<open>d[k] = v\<close> on a dict: replaces the value of an existing key, else appends.\<close>

fun setitem_kvs :: "(string \<times> json) list \<Rightarrow> string \<Rightarrow> json \<Rightarrow> (string \<times> json) list" where
  "setitem_kvs [] k v = [(k, v)]"
| "setitem_kvs ((k', v') # kvs) k v =
     (if k' = k then (k, v) # kvs else (k', v') # setitem_kvs kvs k v)"

text \<open>\<^verbatim>\<open>range(0, n, step)\<close> for a positive step.\<close>

definition py_range0 :: "nat \<Rightarrow> nat \<Rightarrow> nat list" where
  "py_range0 n step = map (\<lambda>k. k * step) [0 ..< (n + step - 1) div step]"

definition my :: "transport \<Rightarrow> Music163Api \<Rightarrow> request list \<Rightarrow> (exn + My) \<times> request list" where
  "my post self calls =
     (case u_post post ''/api/w/nuser/account/get'' (api_cookie self) JNull calls of
        (Inl err, calls1) \<Rightarrow> (Inl err, calls1)
      | (Inr data, calls1) \<Rightarrow>
          (case getitem data ''profile'' of
             Inl err \<Rightarrow> (Inl err, calls1)
           | Inr profile \<Rightarrow>
               if profile = JNull then (Inl (Music163BadData data), calls1)
               else (Inr (My data (api_cookie self)), calls1)))"

text \<open>
  \<^verbatim>\<open>music\<close>. The helper \<^verbatim>\<open>_id_format\<close> of the package's \<^verbatim>\<open>__init__\<close> is not among the
  source files; \<open>u_id_format\<close> is a parameter giving the value of
  \<^verbatim>\<open>_id_format(ids, dict_str=True)\<close>.
\<close>

definition music ::
  "transport \<Rightarrow> (json \<Rightarrow> json) \<Rightarrow> Music163Api \<Rightarrow> json \<Rightarrow> request list
     \<Rightarrow> (exn + music_result) \<times> request list"
where
  "music post u_id_format self ids calls =
     (case u_post post ''/api/v3/song/detail'' (api_cookie self)
             (JObj [(''c'', u_id_format ids)]) calls of
        (Inl err, calls1) \<Rightarrow> (Inl err, calls1)
      | (Inr data, calls1) \<Rightarrow>
          (case getitem data ''songs'' of
             Inl err \<Rightarrow> (Inl err, calls1)
           | Inr songs \<Rightarrow>
               (case py_len songs of
                  Inl err \<Rightarrow> (Inl err, calls1)
                | Inr n \<Rightarrow>
                    if n = 1
                    then (case getitem0 songs of
                            Inl err \<Rightarrow> (Inl err, calls1)
                          | Inr song \<Rightarrow> (Inr (Single (Music song (api_cookie self))), calls1))
                    else (case py_iter songs of
                            Inl err \<Rightarrow> (Inl err, calls1)
                          | Inr datas \<Rightarrow>
                              (Inr (Generator (map (\<lambda>d. Music d (api_cookie self)) datas)),
                               calls1)))))"

text \<open>\<^verbatim>\<open>[song.get("id") for song in ...]\<close>.\<close>

fun get_ids :: "json list \<Rightarrow> exn + json list" where
  "get_ids [] = Inr []"
| "get_ids (song # songs) =
     (case py_get song ''id'' of
        Inl err \<Rightarrow> Inl err
      | Inr i \<Rightarrow> (case get_ids songs of Inl err \<Rightarrow> Inl err | Inr ids \<Rightarrow> Inr (i # ids)))"

text \<open>\<^verbatim>\<open>playlist_data["tracks"] += music_list\<close>.\<close>

definition iadd_tracks :: "json \<Rightarrow> json list \<Rightarrow> exn + json" where
  "iadd_tracks playlist_data music_list =
     (case getitem playlist_data ''tracks'' of
        Inl err \<Rightarrow> Inl err
      | Inr (JList tracks) \<Rightarrow>
          (case playlist_data of
             JObj kvs \<Rightarrow> Inr (JObj (setitem_kvs kvs ''tracks'' (JList (tracks @ music_list))))
           | _ \<Rightarrow> Inl TypeError)
      | Inr _ \<Rightarrow> Inl TypeError)"

text \<open>The \<^verbatim>\<open>for i in range(0, len(trackIds), 1000)\<close> loop of \<^verbatim>\<open>playlist\<close>.\<close>

fun playlist_loop ::
  "transport \<Rightarrow> (json \<Rightarrow> json) \<Rightarrow> Music163Api \<Rightarrow> json list \<Rightarrow> nat list \<Rightarrow> json \<Rightarrow> request list
     \<Rightarrow> (exn + json) \<times> request list"
where
  "playlist_loop post u_id_format self trackIds [] playlist_data calls =
     (Inr playlist_data, calls)"
| "playlist_loop post u_id_format self trackIds (i # rest) playlist_data calls =
     (case music post u_id_format self (JList (take 1000 (drop i trackIds))) calls of
        (Inl err, calls1) \<Rightarrow> (Inl err, calls1)
      | (Inr r, calls1) \<Rightarrow>
          (case py_list r of
             Inl err \<Rightarrow> (Inl err, calls1)
           | Inr music_list \<Rightarrow>
               (case iadd_tracks playlist_data (map music_data music_list) of
                  Inl err \<Rightarrow> (Inl err, calls1)
                | Inr playlist_data' \<Rightarrow>
                    playlist_loop post u_id_format self trackIds rest playlist_data' calls1)))"

definition playlist ::
  "transport \<Rightarrow> (json \<Rightarrow> json) \<Rightarrow> Music163Api \<Rightarrow> json \<Rightarrow> request list
     \<Rightarrow> (exn + PlayList) \<times> request list"
where
  "playlist post u_id_format self id_arg calls =
     (case u_post post ''/api/v6/playlist/detail'' (api_cookie self)
             (JObj [(''id'', id_arg), (''n'', JInt 100000)]) calls of
        (Inl err, calls1) \<Rightarrow> (Inl err, calls1)
      | (Inr resp, calls1) \<Rightarrow>
          (case getitem resp ''playlist'' of
             Inl err \<Rightarrow> (Inl err, calls1)
           | Inr playlist_data \<Rightarrow>
               (case getitem playlist_data ''trackIds'' of
                  Inl err \<Rightarrow> (Inl err, calls1)
                | Inr track_ids \<Rightarrow>
                    (case py_iter track_ids of
                       Inl err \<Rightarrow> (Inl err, calls1)
                     | Inr songs \<Rightarrow>
                         (case get_ids songs of
                            Inl err \<Rightarrow> (Inl err, calls1)
                          | Inr ids \<Rightarrow>
                              (let trackIds = drop 1000 ids
                               in if trackIds = []
                                  then (Inr (PlayList playlist_data (api_cookie self)), calls1)
                                  else (case playlist_loop post u_id_format self trackIds
                                               (py_range0 (length trackIds) 1000)
                                               playlist_data calls1 of
                                          (Inl err, calls2) \<Rightarrow> (Inl err, calls2)
                                        | (Inr playlist_data', calls2) \<Rightarrow>
                                            (Inr (PlayList playlist_data' (api_cookie self)),
                                             calls2))))))))"

section \<open>Scripted remotes used in the examples\<close>

definition status_response :: "int \<Rightarrow> outcome" where
  "status_response n = Response (JObj [(''code'', JInt n)]) []"

definition demo_script :: "nat \<Rightarrow> outcome" where
  "demo_script =
     script_of
       [Raises (ClientError ''timeout''),
        Response (JObj [(''msg'', JStr ''busy'')]) [],
        Raises (ClientError ''reset'')]
       (Raises CancelledError)"

definition rejected_then_accepted :: "nat \<Rightarrow> outcome" where
  "rejected_then_accepted = script_of [status_response 502] (status_response 200)"

definition qr_script_expired :: "nat \<Rightarrow> outcome" where
  "qr_script_expired = script_of [status_response 801, status_response 800] (status_response 800)"

definition qr_script_success :: "nat \<Rightarrow> outcome" where
  "qr_script_success =
     script_of
       [status_response 801, status_response 801, status_response 802,
        Response (JObj [(''code'', JInt 803)])
          [(''MUSIC_U'', \<lparr>key = ''MUSIC_U'', coded_value = ''xyz'', attrs = [''Path=/'']\<rparr>)]]
       (status_response 800)"

text \<open>
  A remote for \<^verbatim>\<open>playlist\<close>: a playlist of \<open>n\<close> tracks whose detail lists all track
  ids and the first 1000 tracks, and a song-detail endpoint answering one song per
  requested id, in order.
\<close>

definition track_id_entry :: "nat \<Rightarrow> json" where
  "track_id_entry i = JObj [(''id'', JInt (int i))]"

definition song_of :: "nat \<Rightarrow> json" where
  "song_of i = JObj [(''id'', JInt (int i)), (''name'', JStr ''song'')]"

fun song_for_id :: "json \<Rightarrow> json" where
  "song_for_id (JInt i) = song_of (nat i)"
| "song_for_id j = JNull"

definition playlist_transport :: "nat \<Rightarrow> transport" where
  "playlist_transport n calls r =
     (if req_url r = ''/api/v6/playlist/detail''
      then Inr (JObj [(''code'', JInt 200),
                      (''playlist'',
                       JObj [(''id'', JInt 1),
                             (''trackIds'', JList (map track_id_entry [0..<n])),
                             (''tracks'', JList (map song_of [0..<min n 1000]))])])
      else if req_url r = ''/api/v3/song/detail''
      then (case req_data r of
              JObj [(c, JList ids)] \<Rightarrow>
                Inr (JObj [(''songs'', JList (map song_for_id ids)), (''code'', JInt 200)])
            | _ \<Rightarrow> Inl (ClientError ''bad request''))
      else Inl (ClientError ''not found''))"

text \<open>The request \<^verbatim>\<open>my\<close> passes to \<^verbatim>\<open>_post\<close>.\<close>

definition whoami_request :: "Music163Api \<Rightarrow> request" where
  "whoami_request self =
     \<lparr>req_url = ''/api/w/nuser/account/get'', req_cookie = api_cookie self, req_data = JNull\<rparr>"

section \<open>Properties\<close>

lemma cookie_loop_acc:
  "cookie_loop acc ms = acc @ concat (map (\<lambda>m. cookie_data m @ ''; '') ms)"
  by (induction ms arbitrary: acc) simp_all

subsection \<open>The session token assembled from the cookies\<close>

lemma join_Cons: "join sep (x # xs) = x @ concat (map ((@) sep) xs)"
  by (induction xs arbitrary: x) simp_all

lemma concat_sep_join:
  "concat (map (\<lambda>f. f @ sep) fs) = (if fs = [] then [] else join sep fs @ sep)"
proof (induction fs)
  case Nil
  then show ?case by simp
next
  case (Cons f fs)
  then show ?case by (cases fs) simp_all
qed

lemma dropWhile_stop: "\<not> P x \<Longrightarrow> dropWhile P (xs @ x # ys) = dropWhile P xs @ x # ys"
  by (induction xs) simp_all

lemma lstrip_Morsel_str:
  "lstrip ''Set-Cookie: '' (Morsel_str m) =
     lstrip ''Set-Cookie: '' (key m) @ ''='' @ coded_value m @ concat (map ((@) ''; '') (attrs m))"
proof -
  have "lstrip ''Set-Cookie: '' (Morsel_str m) =
        lstrip ''Set-Cookie: '' (key m @ CHR ''='' # (coded_value m @ concat (map ((@) ''; '') (attrs m))))"
    by (simp add: lstrip_def Morsel_str_def join_Cons)
  also have "\<dots> = lstrip ''Set-Cookie: '' (key m) @ CHR ''='' # (coded_value m @ concat (map ((@) ''; '') (attrs m)))"
    unfolding lstrip_def by (rule dropWhile_stop) simp
  finally show ?thesis by simp
qed

lemma split1_head_attrs:
  "CHR '';'' \<notin> set s \<Longrightarrow> split1_head ''; '' (s @ concat (map ((@) ''; '') as)) = s"
proof (induction s)
  case Nil
  then show ?case by (cases as) simp_all
next
  case (Cons c s)
  then show ?case by auto
qed

text \<open>
  C10. \<^verbatim>\<open>_SimpleCookieToCookieStr\<close> cleans each fragment with
  \<^verbatim>\<open>lstrip("Set-Cookie: ")\<close>, which removes every leading character of the character
  set and not the literal prefix only, so the leading characters of a cookie's name
  that belong to the set are deleted as well (a cookie named \<^verbatim>\<open>token\<close> is emitted as
  \<^verbatim>\<open>n=...\<close>); the assembled token, when non-empty, is the fragments joined by
  \<^verbatim>\<open>"; "\<close> with a trailing \<^verbatim>\<open>"; "\<close>.
\<close>

theorem cookie_str_strips_charset:
  "u_SimpleCookieToCookieStr jar =
     (if jar = [] then [] else join ''; '' (map (\<lambda>kv. cookie_data (snd kv)) jar) @ ''; '')
   \<and> cookie_data m =
       split1_head ''; ''
         (dropWhile (\<lambda>c. c \<in> set ''Set-Cookie: '') (key m) @ ''='' @ coded_value m @
          concat (map ((@) ''; '') (attrs m)))
   \<and> (CHR '';'' \<notin> set (key m @ coded_value m) \<longrightarrow>
        cookie_data m = dropWhile (\<lambda>c. c \<in> set ''Set-Cookie: '') (key m) @ ''='' @ coded_value m)"
proof (intro conjI impI)
  show "u_SimpleCookieToCookieStr jar =
     (if jar = [] then [] else join ''; '' (map (\<lambda>kv. cookie_data (snd kv)) jar) @ ''; '')"
    using concat_sep_join [of "''; ''" "map (\<lambda>kv. cookie_data (snd kv)) jar"]
    by (simp add: u_SimpleCookieToCookieStr_def cookie_loop_acc comp_def)
  show eq: "cookie_data m =
       split1_head ''; ''
         (dropWhile (\<lambda>c. c \<in> set ''Set-Cookie: '') (key m) @ ''='' @ coded_value m @
          concat (map ((@) ''; '') (attrs m)))"
    unfolding cookie_data_def lstrip_Morsel_str by (simp add: lstrip_def)
  assume nosemi: "CHR '';'' \<notin> set (key m @ coded_value m)"
  have "CHR '';'' \<notin> set (dropWhile (\<lambda>c. c \<in> set ''Set-Cookie: '') (key m) @ ''='' @ coded_value m)"
    using nosemi set_dropWhileD [of "CHR '';''" "\<lambda>c. c \<in> set ''Set-Cookie: ''" "key m"] by auto
  from split1_head_attrs [OF this, of "attrs m"]
  show "cookie_data m = dropWhile (\<lambda>c. c \<in> set ''Set-Cookie: '') (key m) @ ''='' @ coded_value m"
    unfolding eq by simp
qed

theorem cookie_str_strips_charset_witness:
  "CHR '';'' \<notin> set (''token'' @ ''abc'')
   \<and> u_SimpleCookieToCookieStr
        [(''token'', \<lparr>key = ''token'', coded_value = ''abc'', attrs = [''HttpOnly'', ''Path=/'']\<rparr>),
         (''MUSIC_U'', \<lparr>key = ''MUSIC_U'', coded_value = ''xyz'', attrs = []\<rparr>)]
      = ''n=abc; MUSIC_U=xyz; ''
   \<and> cookie_data \<lparr>key = ''token'', coded_value = ''abc'', attrs = [''HttpOnly'', ''Path=/'']\<rparr> = ''n=abc''"
  using cookie_str_strips_charset
    [of "[(''token'', \<lparr>key = ''token'', coded_value = ''abc'', attrs = [''HttpOnly'', ''Path=/'']\<rparr>),
         (''MUSIC_U'', \<lparr>key = ''MUSIC_U'', coded_value = ''xyz'', attrs = []\<rparr>)]"
        "\<lparr>key = ''token'', coded_value = ''abc'', attrs = [''HttpOnly'', ''Path=/'']\<rparr>"]
  by (simp add: cookie_data_def lstrip_def Morsel_str_def)

subsection \<open>One attempt of the login request and the retry path\<close>

declare u_login.simps [simp del]

lemma login_guard_Exception: "login_guard = Class Exception_c"
  by (simp add: login_guard_def py_or_def)

lemma u_login_returns:
  "try_result (remote (served e)) = Inr tok \<Longrightarrow>
   u_login remote R self url data n e = (Inr tok, exchange (login_request self url data) e)"
  by (subst u_login.simps) (simp add: Let_def)

lemma u_login_caught:
  "try_result (remote (served e)) = Inl err \<Longrightarrow> isinstance err Exception_c \<Longrightarrow>
   u_login remote R self url data n e =
     (if n + 1 > R
      then (Inl (CannotConnectApi R url err), exchange (login_request self url data) e)
      else u_login remote R self url (data_after (remote (served e)) data) (n + 1)
             (exchange (login_request self url data) e))"
  by (subst u_login.simps) (simp add: Let_def login_guard_Exception)

lemma u_login_escapes:
  "try_result (remote (served e)) = Inl err \<Longrightarrow> \<not> isinstance err Exception_c \<Longrightarrow>
   u_login remote R self url data n e = (Inl err, exchange (login_request self url data) e)"
  by (subst u_login.simps) (simp add: Let_def login_guard_Exception)

lemma served_exchange [simp]: "served (exchange r e) = Suc (served e)"
  by (simp add: exchange_def)

lemma trace_exchange [simp]: "trace (exchange r e) = trace e @ [Post r]"
  by (simp add: exchange_def)

lemma u_login_all_fail:
  "nat (R - n) = k \<Longrightarrow>
   \<forall>i\<le>k. \<exists>err. try_result (remote (served e + i)) = Inl err \<and> isinstance err Exception_c \<Longrightarrow>
   \<exists>err e'. try_result (remote (served e + k)) = Inl err
      \<and> u_login remote R self url data n e = (Inl (CannotConnectApi R url err), e')
      \<and> served e' = served e + k + 1
      \<and> length (trace e') = length (trace e) + k + 1"
proof (induction k arbitrary: n e data)
  case 0
  from "0.prems"(2) obtain err where
    err: "try_result (remote (served e)) = Inl err" "isinstance err Exception_c"
    by auto
  from "0.prems"(1) have "n + 1 > R" by simp
  with u_login_caught [where remote = remote and e = e and R = R and self = self and url = url and data = data and n = n, OF err] err(1) show ?case by simp
next
  case (Suc k)
  from Suc.prems(2) obtain err where
    err: "try_result (remote (served e)) = Inl err" "isinstance err Exception_c"
    by force
  let ?e1 = "exchange (login_request self url data) e"
  let ?d1 = "data_after (remote (served e)) data"
  from Suc.prems(1) have le: "\<not> n + 1 > R" and k: "nat (R - (n + 1)) = k" by simp_all
  have step: "u_login remote R self url data n e = u_login remote R self url ?d1 (n + 1) ?e1"
    using u_login_caught [where remote = remote and e = e and R = R and self = self and url = url and data = data and n = n, OF err] le by simp
  have "\<forall>i\<le>k. \<exists>err. try_result (remote (served ?e1 + i)) = Inl err \<and> isinstance err Exception_c"
  proof (intro allI impI)
    fix i assume "i \<le> k"
    then have "Suc i \<le> Suc k" by simp
    with Suc.prems(2) show "\<exists>err. try_result (remote (served ?e1 + i)) = Inl err \<and> isinstance err Exception_c"
      by (metis add_Suc_shift served_exchange)
  qed
  from Suc.IH [OF k this, of ?d1] step show ?case by simp
qed

lemma u_login_attempts_le:
  "served (snd (u_login remote R self url data n e)) \<le> served e + nat (R - n) + 1"
proof (induction remote R self url data n e rule: u_login.induct)
  case (1 remote R self url data n e)
  show ?case
  proof (cases "try_result (remote (served e))")
    case (Inr tok)
    then show ?thesis by (simp add: u_login_returns)
  next
    case (Inl err)
    show ?thesis
    proof (cases "isinstance err Exception_c")
      case False
      with Inl show ?thesis by (simp add: u_login_escapes)
    next
      case True
      show ?thesis
      proof (cases "n + 1 > R")
        case True
        with Inl \<open>isinstance err Exception_c\<close> show ?thesis by (simp add: u_login_caught)
      next
        case False
        have "except_matches login_guard err = Inr True"
          using True by (simp add: login_guard_Exception)
        from "1.IH" [OF refl refl Inl this _ False]
        have "served (snd (u_login remote R self url (data_after (remote (served e)) data) (n + 1)
                 (exchange (login_request self url data) e)))
              \<le> served (exchange (login_request self url data) e) + nat (R - (n + 1)) + 1"
          by simp
        with False Inl True show ?thesis by (simp add: u_login_caught)
      qed
    qed
  qed
qed

lemma u_login_error_kind:
  "fst (u_login remote R self url data n e) = Inl err \<Longrightarrow>
   (\<exists>cause. err = CannotConnectApi R url cause) \<or> \<not> isinstance err Exception_c"
proof (induction remote R self url data n e rule: u_login.induct)
  case (1 remote R self url data n e)
  show ?case
  proof (cases "try_result (remote (served e))")
    case (Inr tok)
    with "1.prems" show ?thesis by (simp add: u_login_returns)
  next
    case (Inl err0)
    show ?thesis
    proof (cases "isinstance err0 Exception_c")
      case False
      with Inl "1.prems" show ?thesis by (simp add: u_login_escapes)
    next
      case True
      show ?thesis
      proof (cases "n + 1 > R")
        case True
        with Inl \<open>isinstance err0 Exception_c\<close> "1.prems" show ?thesis
          by (auto simp add: u_login_caught)
      next
        case False
        have m: "except_matches login_guard err0 = Inr True"
          using True by (simp add: login_guard_Exception)
        from "1.prems" False Inl True
        have "fst (u_login remote R self url (data_after (remote (served e)) data) (n + 1)
                 (exchange (login_request self url data) e)) = Inl err"
          by (simp add: u_login_caught)
        from "1.IH" [OF refl refl Inl m _ False this] show ?thesis by simp
      qed
    qed
  qed
qed

lemma not_isinstance_BadCode_Exception [simp]:
  "\<not> isinstance (Music163BadCode c b) Exception_c"
  by (simp add: isinstance_def)

lemma isinstance_BadCode [simp]: "isinstance (Music163BadCode c b) Music163BadCode_c"
  by (simp add: isinstance_def)

lemma try_result_response:
  "getitem body ''code'' = Inr c \<Longrightarrow>
   try_result (Response body cookies) =
     (if c = JInt 200 \<or> c = JInt 803 then Inr (u_SimpleCookieToCookieStr cookies)
      else Inl (Music163BadCode c body))"
  by (auto simp add: try_result_def py_in_def)

lemma u_login_rejected:
  "remote (served e) = Response body cookies \<Longrightarrow> getitem body ''code'' = Inr c \<Longrightarrow>
   c \<noteq> JInt 200 \<Longrightarrow> c \<noteq> JInt 803 \<Longrightarrow>
   u_login remote R self url data n e
     = (Inl (Music163BadCode c body), exchange (login_request self url data) e)"
  by (simp add: u_login_escapes try_result_response)

lemma u_login_accepted:
  "remote (served e) = Response body cookies \<Longrightarrow> getitem body ''code'' = Inr c \<Longrightarrow>
   c = JInt 200 \<or> c = JInt 803 \<Longrightarrow>
   u_login remote R self url data n e
     = (Inr (u_SimpleCookieToCookieStr cookies), exchange (login_request self url data) e)"
  by (simp add: u_login_returns try_result_response)

lemma u_login_retry_only_if_caught:
  "served (snd (u_login remote R self url data n e)) \<noteq> Suc (served e) \<Longrightarrow>
   \<exists>err. try_result (remote (served e)) = Inl err \<and> isinstance err Exception_c
      \<and> class_of err \<noteq> Music163BadCode_c"
proof (cases "try_result (remote (served e))")
  case (Inr tok)
  assume "served (snd (u_login remote R self url data n e)) \<noteq> Suc (served e)"
  with Inr show ?thesis by (simp add: u_login_returns)
next
  case (Inl err)
  assume a: "served (snd (u_login remote R self url data n e)) \<noteq> Suc (served e)"
  show ?thesis
  proof (cases "isinstance err Exception_c")
    case False
    with Inl a show ?thesis by (simp add: u_login_escapes)
  next
    case True
    then have "class_of err \<noteq> Music163BadCode_c" by (auto simp add: isinstance_def)
    with Inl True show ?thesis by simp
  qed
qed

lemma trace_env0 [simp]: "trace env0 = []" and served_env0 [simp]: "served env0 = 0"
  by (simp_all add: env0_def)

lemma rejected_then_accepted_0:
  "rejected_then_accepted 0 = Response (JObj [(''code'', JInt 502)]) []"
  by (simp add: rejected_then_accepted_def script_of_def status_response_def)

subsection \<open>Rejections and the retry\<close>

text \<open>
  C1. A business rejection, a response whose \<^verbatim>\<open>code\<close> is outside 200 and 803, is
  raised by \<^verbatim>\<open>_login\<close> (and so by \<^verbatim>\<open>email\<close>, \<^verbatim>\<open>cellphone\<close> and \<^verbatim>\<open>qr_check\<close>) to the
  caller at once, after that one exchange, as \<^verbatim>\<open>Music163BadCode\<close> carrying the code
  and the raw body, whatever the retry counter and \<open>RECONNECTION\<close> are; a further
  exchange is made only when the \<^verbatim>\<open>try\<close> block raised an exception deriving from
  \<^verbatim>\<open>Exception\<close>, which \<^verbatim>\<open>Music163BadCode\<close> is not.
\<close>

theorem login_rejection_raised_at_once:
  assumes "remote (served e) = Response body cookies"
    and "getitem body ''code'' = Inr c"
    and "c \<noteq> JInt 200" and "c \<noteq> JInt 803"
  shows "u_login remote R self url data n e
           = (Inl (Music163BadCode c body), exchange (login_request self url data) e)
       \<and> err_code (Music163BadCode c body) = c
       \<and> fst (email md5_hex remote R address password self e) = Inl (Music163BadCode c body)
       \<and> served (snd (snd (email md5_hex remote R address password self e))) = Suc (served e)
       \<and> fst (cellphone md5_hex remote R phone pw captcha country_code self e)
           = Inl (Music163BadCode c body)
       \<and> served (snd (snd (cellphone md5_hex remote R phone pw captcha country_code self e)))
           = Suc (served e)
       \<and> qr_check remote R qr_key self e
           = (Inl (Music163BadCode c body), exchange (qr_request self qr_key) e)
       \<and> (\<forall>remote' data' n' e'.
             served (snd (u_login remote' R self url data' n' e')) \<noteq> Suc (served e') \<longrightarrow>
             (\<exists>err. try_result (remote' (served e')) = Inl err \<and> isinstance err Exception_c
                 \<and> class_of err \<noteq> Music163BadCode_c))"
proof -
  note rej = u_login_rejected [where remote = remote and e = e, OF assms]
  have em: "email md5_hex remote R address password self e
      = (Inl (Music163BadCode c body), snd (u_md5 md5_hex password self),
         exchange (login_request (snd (u_md5 md5_hex password self)) ''/api/login''
            (JObj [(''username'', JStr address),
                   (''password'', JStr (fst (u_md5 md5_hex password self))),
                   (''rememberLogin'', JStr ''true'')])) e)"
    by (simp add: email_def rej split_beta Let_def)
  have ce: "fst (cellphone md5_hex remote R phone pw captcha country_code self e)
        = Inl (Music163BadCode c body)
      \<and> served (snd (snd (cellphone md5_hex remote R phone pw captcha country_code self e)))
        = Suc (served e)"
    by (simp add: cellphone_def rej split_beta Let_def)
  have qc: "qr_check remote R qr_key self e
           = (Inl (Music163BadCode c body), exchange (qr_request self qr_key) e)"
    by (simp add: qr_check_def qr_request_def rej)
  show ?thesis
    using rej [of R self url data n] em ce qc u_login_retry_only_if_caught [of _ R self url]
    by simp
qed

theorem login_rejection_raised_at_once_witness:
  "rejected_then_accepted (served env0) = Response (JObj [(''code'', JInt 502)]) []
   \<and> getitem (JObj [(''code'', JInt 502)]) ''code'' = Inr (JInt 502)
   \<and> JInt 502 \<noteq> JInt 200 \<and> JInt 502 \<noteq> JInt 803
   \<and> u_login rejected_then_accepted 3 (LoginMusic163_init None) ''/api/login'' (JObj []) 0 env0
       = (Inl (Music163BadCode (JInt 502) (JObj [(''code'', JInt 502)])),
          exchange (login_request (LoginMusic163_init None) ''/api/login'' (JObj [])) env0)
   \<and> fst (email id rejected_then_accepted 3 ''a@b.c'' ''secret'' (LoginMusic163_init None) env0)
       = Inl (Music163BadCode (JInt 502) (JObj [(''code'', JInt 502)]))
   \<and> served (snd (snd (email id rejected_then_accepted 3 ''a@b.c'' ''secret''
                          (LoginMusic163_init None) env0))) = 1"
proof -
  have h: "rejected_then_accepted (served env0) = Response (JObj [(''code'', JInt 502)]) []"
    by (simp add: rejected_then_accepted_0)
  have g: "getitem (JObj [(''code'', JInt 502)]) ''code'' = Inr (JInt 502)" by simp
  from login_rejection_raised_at_once
         [where remote = rejected_then_accepted and e = env0 and R = 3
            and self = "LoginMusic163_init None" and url = "''/api/login''" and data = "JObj []"
            and n = 0 and md5_hex = id and address = "''a@b.c''" and password = "''secret''",
          OF h g]
  show ?thesis using h by simp
qed

subsection \<open>Termination of the retry and the accepted codes\<close>

text \<open>
  C2, as stated, fails where an attempt yields an unaccepted code: the attempt raises
  \<^verbatim>\<open>Music163BadCode\<close>, which the handler does not catch, so the call ends at that attempt
  with \<^verbatim>\<open>Music163BadCode\<close> and not after \<open>RECONNECTION + 1\<close> attempts with
  \<^verbatim>\<open>CannotConnectApi\<close>. The same holds for an attempt that raises an exception not
  deriving from \<^verbatim>\<open>Exception\<close>.
\<close>

theorem login_unaccepted_code_counterexample:
  "try_result (status_response 502)
     = Inl (Music163BadCode (JInt 502) (JObj [(''code'', JInt 502)]))
   \<and> u_login (\<lambda>i. status_response 502) 3 (LoginMusic163_init None) ''/api/login'' (JObj []) 0 env0
       = (Inl (Music163BadCode (JInt 502) (JObj [(''code'', JInt 502)])),
          exchange (login_request (LoginMusic163_init None) ''/api/login'' (JObj [])) env0)
   \<and> served (snd (u_login (\<lambda>i. status_response 502) 3 (LoginMusic163_init None) ''/api/login''
                      (JObj []) 0 env0)) = 1
   \<and> u_login (\<lambda>i. Raises CancelledError) 3 (LoginMusic163_init None) ''/api/login'' (JObj []) 0 env0
       = (Inl CancelledError,
          exchange (login_request (LoginMusic163_init None) ''/api/login'' (JObj [])) env0)"
proof -
  have t: "try_result (status_response 502)
     = Inl (Music163BadCode (JInt 502) (JObj [(''code'', JInt 502)]))"
    by (simp add: status_response_def try_result_def py_in_def)
  have c: "try_result (Raises CancelledError) = Inl CancelledError"
    by (simp add: try_result_def)
  have n: "\<not> isinstance CancelledError Exception_c" by (simp add: isinstance_def)
  show ?thesis using t c n by (simp add: u_login_escapes)
qed

text \<open>
  C2, as amended. When every attempt of \<^verbatim>\<open>_login\<close> fails by raising, in the \<^verbatim>\<open>try\<close>
  block, an exception deriving from \<^verbatim>\<open>Exception\<close> (a transport error, a body without a
  \<^verbatim>\<open>code\<close> field; not \<^verbatim>\<open>Music163BadCode\<close>), the recursion stops after exactly
  \<open>RECONNECTION + 1\<close> attempts, with the attempt counter running through
  \<open>0..RECONNECTION\<close>, and raises \<^verbatim>\<open>CannotConnectApi\<close> carrying the path and the exception
  of the last attempt. Whatever the remote answers, no more than \<open>RECONNECTION + 1\<close>
  attempts are made.
\<close>

theorem login_exhausts_after_reconnection_plus_one:
  assumes "0 \<le> R"
    and "\<forall>i\<le>nat R. \<exists>err. try_result (remote (served e + i)) = Inl err \<and> isinstance err Exception_c"
  shows "\<exists>cause e'.
           u_login remote R self url data 0 e = (Inl (CannotConnectApi R url cause), e')
         \<and> try_result (remote (served e + nat R)) = Inl cause
         \<and> served e' = served e + nat R + 1
         \<and> length (trace e') = length (trace e) + nat R + 1
         \<and> (\<forall>remote' data'.
               served (snd (u_login remote' R self url data' 0 e)) \<le> served e + nat R + 1)"
proof -
  have k: "nat (R - 0) = nat R" by simp
  from u_login_all_fail [OF k assms(2), where self = self and url = url and data = data]
  obtain err e' where
    "try_result (remote (served e + nat R)) = Inl err"
    "u_login remote R self url data 0 e = (Inl (CannotConnectApi R url err), e')"
    "served e' = served e + nat R + 1"
    "length (trace e') = length (trace e) + nat R + 1"
    by blast
  moreover have "\<forall>remote' data'.
      served (snd (u_login remote' R self url data' 0 e)) \<le> served e + nat R + 1"
    using u_login_attempts_le [of _ R self url _ 0 e] by simp
  ultimately show ?thesis by blast
qed

theorem login_exhausts_after_reconnection_plus_one_witness:
  "0 \<le> (2::int)
   \<and> served env0 = 0
   \<and> try_result (demo_script 0) = Inl (ClientError ''timeout'')
   \<and> try_result (demo_script 1) = Inl (KeyError ''code'')
   \<and> try_result (demo_script 2) = Inl (ClientError ''reset'')
   \<and> isinstance (ClientError ''timeout'') Exception_c
   \<and> isinstance (KeyError ''code'') Exception_c
   \<and> isinstance (ClientError ''reset'') Exception_c
   \<and> (\<exists>e'.
         u_login demo_script 2 (LoginMusic163_init None) ''/api/login'' (JObj []) 0 env0
           = (Inl (CannotConnectApi 2 ''/api/login'' (ClientError ''reset'')), e')
       \<and> served e' = 3 \<and> length (trace e') = 3)"
proof -
  have t: "try_result (demo_script 0) = Inl (ClientError ''timeout'')"
    "try_result (demo_script 1) = Inl (KeyError ''code'')"
    "try_result (demo_script 2) = Inl (ClientError ''reset'')"
    by (simp_all add: demo_script_def script_of_def try_result_def)
  have i: "isinstance (ClientError ''timeout'') Exception_c"
    "isinstance (KeyError ''code'') Exception_c"
    "isinstance (ClientError ''reset'') Exception_c"
    by (simp_all add: isinstance_def)
  have h: "\<forall>i\<le>nat 2. \<exists>err. try_result (demo_script (served env0 + i)) = Inl err
          \<and> isinstance err Exception_c"
  proof (intro allI impI)
    fix i :: nat assume "i \<le> nat 2"
    then have "i = 0 \<or> i = 1 \<or> i = 2" by auto
    then show "\<exists>err. try_result (demo_script (served env0 + i)) = Inl err
        \<and> isinstance err Exception_c"
      using t i by auto
  qed
  have last: "try_result (demo_script (served env0 + nat 2)) = Inl (ClientError ''reset'')"
    by (simp add: demo_script_def script_of_def try_result_def)
  from login_exhausts_after_reconnection_plus_one
         [of 2 demo_script env0 "LoginMusic163_init None" "''/api/login''" "JObj []", OF _ h]
  obtain cause e' where
    "u_login demo_script 2 (LoginMusic163_init None) ''/api/login'' (JObj []) 0 env0
       = (Inl (CannotConnectApi 2 ''/api/login'' cause), e')"
    "try_result (demo_script (served env0 + nat 2)) = Inl cause"
    "served e' = served env0 + nat 2 + 1"
    "length (trace e') = length (trace env0) + nat 2 + 1"
    by auto
  with last have "\<exists>e'.
         u_login demo_script 2 (LoginMusic163_init None) ''/api/login'' (JObj []) 0 env0
           = (Inl (CannotConnectApi 2 ''/api/login'' (ClientError ''reset'')), e')
       \<and> served e' = 3 \<and> length (trace e') = 3"
    by auto
  with t i show ?thesis by simp
qed

text \<open>
  C3, as stated, fails in its last part: \<^verbatim>\<open>Music163BadCode\<close> does not feed the retry
  path. With the counter at 0, \<open>RECONNECTION\<close> at 3 and an accepted answer waiting,
  a 502 answer ends the call after one exchange.
\<close>

theorem login_rejection_not_retried_counterexample:
  "rejected_then_accepted 0 = status_response 502
   \<and> rejected_then_accepted 1 = status_response 200
   \<and> (0::int) + 1 \<le> 3
   \<and> fst (u_login rejected_then_accepted 3 (LoginMusic163_init None) ''/api/login'' (JObj []) 0 env0)
       = Inl (Music163BadCode (JInt 502) (JObj [(''code'', JInt 502)]))
   \<and> served (snd (u_login rejected_then_accepted 3 (LoginMusic163_init None) ''/api/login''
                      (JObj []) 0 env0)) = 1"
proof -
  have h: "rejected_then_accepted (served env0) = Response (JObj [(''code'', JInt 502)]) []"
    by (simp add: rejected_then_accepted_0)
  have g: "getitem (JObj [(''code'', JInt 502)]) ''code'' = Inr (JInt 502)" by simp
  have "u_login rejected_then_accepted 3 (LoginMusic163_init None) ''/api/login'' (JObj []) 0 env0
       = (Inl (Music163BadCode (JInt 502) (JObj [(''code'', JInt 502)])),
          exchange (login_request (LoginMusic163_init None) ''/api/login'' (JObj [])) env0)"
    by (rule u_login_rejected [where remote = rejected_then_accepted and e = env0, OF h g]) simp_all
  then show ?thesis by (simp add: rejected_then_accepted_def script_of_def)
qed

text \<open>
  C3, as amended. A call of \<^verbatim>\<open>_login\<close> that receives a response whose body has a
  \<^verbatim>\<open>code\<close> field succeeds exactly when the code is 200 or 803, and then returns the
  string assembled from the response's cookies. For any other code it raises
  \<^verbatim>\<open>Music163BadCode\<close> carrying the code and the parsed body; the handler does not catch
  it, so the call ends there, without a retry.
\<close>

theorem login_succeeds_iff_code_accepted:
  assumes "remote (served e) = Response body cookies"
    and "getitem body ''code'' = Inr c"
  shows "((\<exists>tok. fst (u_login remote R self url data n e) = Inr tok)
            \<longleftrightarrow> (c = JInt 200 \<or> c = JInt 803))
       \<and> (c = JInt 200 \<or> c = JInt 803 \<longrightarrow>
            u_login remote R self url data n e
              = (Inr (u_SimpleCookieToCookieStr cookies), exchange (login_request self url data) e))
       \<and> (\<not> (c = JInt 200 \<or> c = JInt 803) \<longrightarrow>
            u_login remote R self url data n e
              = (Inl (Music163BadCode c body), exchange (login_request self url data) e))"
proof (cases "c = JInt 200 \<or> c = JInt 803")
  case True
  from u_login_accepted [where remote = remote and e = e, OF assms True, of R self url data n]
  show ?thesis using True by simp
next
  case False
  then have "c \<noteq> JInt 200" "c \<noteq> JInt 803" by simp_all
  from u_login_rejected [where remote = remote and e = e, OF assms this, of R self url data n]
  show ?thesis using False by simp
qed

theorem login_succeeds_iff_code_accepted_witness:
  "qr_script_success (served (env0\<lparr>served := 3\<rparr>))
     = Response (JObj [(''code'', JInt 803)])
         [(''MUSIC_U'', \<lparr>key = ''MUSIC_U'', coded_value = ''xyz'', attrs = [''Path=/'']\<rparr>)]
   \<and> getitem (JObj [(''code'', JInt 803)]) ''code'' = Inr (JInt 803)
   \<and> u_login qr_script_success 3 (LoginMusic163_init None) ''/api/login/qrcode/client/login''
        (JObj []) 0 (env0\<lparr>served := 3\<rparr>)
       = (Inr ''MUSIC_U=xyz; '',
          exchange (login_request (LoginMusic163_init None) ''/api/login/qrcode/client/login'' (JObj []))
            (env0\<lparr>served := 3\<rparr>))
   \<and> rejected_then_accepted (served env0) = Response (JObj [(''code'', JInt 502)]) []
   \<and> getitem (JObj [(''code'', JInt 502)]) ''code'' = Inr (JInt 502)
   \<and> u_login rejected_then_accepted 3 (LoginMusic163_init None) ''/api/login'' (JObj []) 0 env0
       = (Inl (Music163BadCode (JInt 502) (JObj [(''code'', JInt 502)])),
          exchange (login_request (LoginMusic163_init None) ''/api/login'' (JObj [])) env0)"
proof -
  have a1: "qr_script_success (served (env0\<lparr>served := 3\<rparr>))
     = Response (JObj [(''code'', JInt 803)])
         [(''MUSIC_U'', \<lparr>key = ''MUSIC_U'', coded_value = ''xyz'', attrs = [''Path=/'']\<rparr>)]"
    by (simp add: qr_script_success_def script_of_def)
  have a2: "getitem (JObj [(''code'', JInt 803)]) ''code'' = Inr (JInt 803)" by simp
  have b1: "rejected_then_accepted (served env0) = Response (JObj [(''code'', JInt 502)]) []"
    by (simp add: rejected_then_accepted_0)
  have b2: "getitem (JObj [(''code'', JInt 502)]) ''code'' = Inr (JInt 502)" by simp
  have tok: "u_SimpleCookieToCookieStr
         [(''MUSIC_U'', \<lparr>key = ''MUSIC_U'', coded_value = ''xyz'', attrs = [''Path=/'']\<rparr>)]
       = ''MUSIC_U=xyz; ''"
    by (simp add: u_SimpleCookieToCookieStr_def cookie_data_def lstrip_def Morsel_str_def)
  from login_succeeds_iff_code_accepted
         [where remote = qr_script_success and e = "env0\<lparr>served := 3\<rparr>" and R = 3
            and self = "LoginMusic163_init None" and url = "''/api/login/qrcode/client/login''"
            and data = "JObj []" and n = 0, OF a1 a2]
       login_succeeds_iff_code_accepted
         [where remote = rejected_then_accepted and e = env0 and R = 3
            and self = "LoginMusic163_init None" and url = "''/api/login''"
            and data = "JObj []" and n = 0, OF b1 b2]
  show ?thesis using a1 b1 tok by simp
qed

subsection \<open>The guard of the handler\<close>

text \<open>
  C7, as stated, fails for \<^verbatim>\<open>Music163BadCode\<close> itself: raised inside the \<^verbatim>\<open>try\<close> block, it
  is not matched by the guard and leaves \<^verbatim>\<open>_login\<close> without the retry path being taken.
\<close>

theorem login_guard_misses_BadCode_counterexample:
  "try_result (status_response 801)
     = Inl (Music163BadCode (JInt 801) (JObj [(''code'', JInt 801)]))
   \<and> except_matches login_guard (Music163BadCode (JInt 801) (JObj [(''code'', JInt 801)]))
       = Inr False
   \<and> u_login (\<lambda>i. status_response 801) 3 (LoginMusic163_init None)
        ''/api/login/qrcode/client/login'' (JObj []) 0 env0
       = (Inl (Music163BadCode (JInt 801) (JObj [(''code'', JInt 801)])),
          exchange (login_request (LoginMusic163_init None) ''/api/login/qrcode/client/login''
                      (JObj [])) env0)"
proof -
  have t: "try_result (status_response 801)
     = Inl (Music163BadCode (JInt 801) (JObj [(''code'', JInt 801)]))"
    by (simp add: status_response_def try_result_def py_in_def)
  then show ?thesis by (simp add: u_login_escapes login_guard_Exception)
qed

text \<open>
  C7, as amended. The guard \<^verbatim>\<open>except Exception or not Music163BadCode\<close> of \<^verbatim>\<open>_login\<close>
  evaluates to the class \<^verbatim>\<open>Exception\<close>: the handler matches an exception exactly when
  \<^verbatim>\<open>except Exception\<close> does. Every exception deriving from \<^verbatim>\<open>Exception\<close> raised in the
  \<^verbatim>\<open>try\<close> block is caught and takes the retry path, and an exception leaving \<^verbatim>\<open>_login\<close>
  is the handler's \<^verbatim>\<open>CannotConnectApi\<close> or does not derive from \<^verbatim>\<open>Exception\<close>. An
  exception not deriving from \<^verbatim>\<open>Exception\<close>, \<^verbatim>\<open>Music163BadCode\<close> among them, is not caught
  and leaves \<^verbatim>\<open>_login\<close> at once.
\<close>

theorem login_guard_is_except_Exception:
  "login_guard = Class Exception_c
   \<and> except_matches login_guard err = except_matches (Class Exception_c) err
   \<and> except_matches login_guard (Music163BadCode c b) = Inr False
   \<and> (try_result (remote (served e)) = Inl err \<and> isinstance err Exception_c \<longrightarrow>
        u_login remote R self url data n e
          = (if n + 1 > R
             then (Inl (CannotConnectApi R url err), exchange (login_request self url data) e)
             else u_login remote R self url (data_after (remote (served e)) data) (n + 1)
                    (exchange (login_request self url data) e)))
   \<and> (try_result (remote (served e)) = Inl err \<and> \<not> isinstance err Exception_c \<longrightarrow>
        u_login remote R self url data n e = (Inl err, exchange (login_request self url data) e))
   \<and> (fst (u_login remote R self url data n e) = Inl err' \<longrightarrow>
        (\<exists>cause. err' = CannotConnectApi R url cause) \<or> \<not> isinstance err' Exception_c)"
proof (intro conjI impI)
  show "login_guard = Class Exception_c" by (rule login_guard_Exception)
  show "except_matches login_guard err = except_matches (Class Exception_c) err"
    by (simp add: login_guard_Exception)
  show "except_matches login_guard (Music163BadCode c b) = Inr False"
    by (simp add: login_guard_Exception)
next
  assume "try_result (remote (served e)) = Inl err \<and> isinstance err Exception_c"
  then show "u_login remote R self url data n e
          = (if n + 1 > R
             then (Inl (CannotConnectApi R url err), exchange (login_request self url data) e)
             else u_login remote R self url (data_after (remote (served e)) data) (n + 1)
                    (exchange (login_request self url data) e))"
    by (simp add: u_login_caught)
next
  assume "try_result (remote (served e)) = Inl err \<and> \<not> isinstance err Exception_c"
  then show "u_login remote R self url data n e
          = (Inl err, exchange (login_request self url data) e)"
    by (simp add: u_login_escapes)
next
  assume "fst (u_login remote R self url data n e) = Inl err'"
  then show "(\<exists>cause. err' = CannotConnectApi R url cause) \<or> \<not> isinstance err' Exception_c"
    by (rule u_login_error_kind)
qed

theorem login_guard_is_except_Exception_witness:
  "try_result (demo_script (served (env0\<lparr>served := 2\<rparr>))) = Inl (ClientError ''reset'')
   \<and> isinstance (ClientError ''reset'') Exception_c
   \<and> u_login demo_script 2 (LoginMusic163_init None) ''/api/login'' (JObj []) 2 (env0\<lparr>served := 2\<rparr>)
       = (Inl (CannotConnectApi 2 ''/api/login'' (ClientError ''reset'')),
          exchange (login_request (LoginMusic163_init None) ''/api/login'' (JObj []))
            (env0\<lparr>served := 2\<rparr>))
   \<and> try_result (demo_script (served (env0\<lparr>served := 3\<rparr>))) = Inl CancelledError
   \<and> \<not> isinstance CancelledError Exception_c
   \<and> u_login demo_script 2 (LoginMusic163_init None) ''/api/login'' (JObj []) 0 (env0\<lparr>served := 3\<rparr>)
       = (Inl CancelledError,
          exchange (login_request (LoginMusic163_init None) ''/api/login'' (JObj []))
            (env0\<lparr>served := 3\<rparr>))"
proof -
  have t: "try_result (demo_script (served (env0\<lparr>served := 2\<rparr>))) = Inl (ClientError ''reset'')"
    by (simp add: demo_script_def script_of_def try_result_def)
  have i: "isinstance (ClientError ''reset'') Exception_c"
    by (simp add: isinstance_def)
  have c: "try_result (demo_script (served (env0\<lparr>served := 3\<rparr>))) = Inl CancelledError"
    by (simp add: demo_script_def script_of_def try_result_def)
  have n: "\<not> isinstance CancelledError Exception_c" by (simp add: isinstance_def)
  from login_guard_is_except_Exception
         [where err = "ClientError ''reset''" and remote = demo_script
            and e = "env0\<lparr>served := 2\<rparr>" and R = 2 and self = "LoginMusic163_init None"
            and url = "''/api/login''" and data = "JObj []" and n = 2]
       login_guard_is_except_Exception
         [where err = CancelledError and remote = demo_script
            and e = "env0\<lparr>served := 3\<rparr>" and R = 2 and self = "LoginMusic163_init None"
            and url = "''/api/login''" and data = "JObj []" and n = 0]
  show ?thesis using t i c n by simp
qed

subsection \<open>Polling the QR status\<close>

text \<open>
  C4. One call of \<^verbatim>\<open>qr_check\<close> whose poll is answered makes that one exchange; when the
  remote reports 801 (waiting), 802 (scanned) or 800 (expired) it raises
  \<^verbatim>\<open>Music163BadCode\<close> carrying that status code (and the body) to the caller, and on 803
  it returns the session token assembled from the cookies.
\<close>

theorem qr_check_raises_remote_status:
  assumes "remote (served e) = Response body cookies"
    and "getitem body ''code'' = Inr (JInt c)"
  shows "(c = 801 \<or> c = 802 \<or> c = 800 \<longrightarrow>
            qr_check remote R qr_key self e
              = (Inl (Music163BadCode (JInt c) body), exchange (qr_request self qr_key) e)
          \<and> err_code (Music163BadCode (JInt c) body) = JInt c)
       \<and> (c = 803 \<longrightarrow>
            qr_check remote R qr_key self e
              = (Inr (u_SimpleCookieToCookieStr cookies), exchange (qr_request self qr_key) e))
       \<and> served (snd (qr_check remote R qr_key self e)) = Suc (served e)"
proof (cases "c = 200 \<or> c = 803")
  case True
  then have "JInt c = JInt 200 \<or> JInt c = JInt 803" by simp
  from u_login_accepted [where remote = remote and e = e, OF assms this]
  show ?thesis using True by (auto simp add: qr_check_def qr_request_def)
next
  case False
  then have "JInt c \<noteq> JInt 200" "JInt c \<noteq> JInt 803" by simp_all
  from u_login_rejected [where remote = remote and e = e, OF assms this]
  show ?thesis using False by (auto simp add: qr_check_def qr_request_def)
qed

theorem qr_check_raises_remote_status_witness:
  "qr_script_success (served env0) = Response (JObj [(''code'', JInt 801)]) []
   \<and> getitem (JObj [(''code'', JInt 801)]) ''code'' = Inr (JInt 801)
   \<and> qr_check qr_script_success 3 ''unikey'' (LoginMusic163_init None) env0
       = (Inl (Music163BadCode (JInt 801) (JObj [(''code'', JInt 801)])),
          exchange (qr_request (LoginMusic163_init None) ''unikey'') env0)
   \<and> qr_script_success (served (env0\<lparr>served := 3\<rparr>))
       = Response (JObj [(''code'', JInt 803)])
           [(''MUSIC_U'', \<lparr>key = ''MUSIC_U'', coded_value = ''xyz'', attrs = [''Path=/'']\<rparr>)]
   \<and> getitem (JObj [(''code'', JInt 803)]) ''code'' = Inr (JInt 803)
   \<and> qr_check qr_script_success 3 ''unikey'' (LoginMusic163_init None) (env0\<lparr>served := 3\<rparr>)
       = (Inr ''MUSIC_U=xyz; '',
          exchange (qr_request (LoginMusic163_init None) ''unikey'') (env0\<lparr>served := 3\<rparr>))"
proof -
  have a1: "qr_script_success (served env0) = Response (JObj [(''code'', JInt 801)]) []"
    by (simp add: qr_script_success_def script_of_def status_response_def)
  have a2: "getitem (JObj [(''code'', JInt 801)]) ''code'' = Inr (JInt 801)" by simp
  have b1: "qr_script_success (served (env0\<lparr>served := 3\<rparr>))
       = Response (JObj [(''code'', JInt 803)])
           [(''MUSIC_U'', \<lparr>key = ''MUSIC_U'', coded_value = ''xyz'', attrs = [''Path=/'']\<rparr>)]"
    by (simp add: qr_script_success_def script_of_def)
  have b2: "getitem (JObj [(''code'', JInt 803)]) ''code'' = Inr (JInt 803)" by simp
  have tok: "u_SimpleCookieToCookieStr
         [(''MUSIC_U'', \<lparr>key = ''MUSIC_U'', coded_value = ''xyz'', attrs = [''Path=/'']\<rparr>)]
       = ''MUSIC_U=xyz; ''"
    by (simp add: u_SimpleCookieToCookieStr_def cookie_data_def lstrip_def Morsel_str_def)
  from qr_check_raises_remote_status
         [where remote = qr_script_success and e = env0 and R = 3 and qr_key = "''unikey''"
            and self = "LoginMusic163_init None", OF a1 a2]
       qr_check_raises_remote_status
         [where remote = qr_script_success and e = "env0\<lparr>served := 3\<rparr>" and R = 3
            and qr_key = "''unikey''" and self = "LoginMusic163_init None", OF b1 b2]
  show ?thesis using a1 b1 tok by simp
qed

lemma qr_pending_step:
  assumes "remote (served e) = Response body cookies"
    and "getitem body ''code'' = Inr (JInt 801) \<or> getitem body ''code'' = Inr (JInt 802)"
  shows "qr remote R qr_key time_sleep self e
           = qr remote R qr_key time_sleep self (sleep time_sleep (exchange (qr_request self qr_key) e))"
proof -
  from assms(2) obtain c where c: "getitem body ''code'' = Inr (JInt c)" "c = 801 \<or> c = 802"
    by auto
  then have ne: "JInt c \<noteq> JInt 200" "JInt c \<noteq> JInt 803" by auto
  have chk: "qr_check remote R qr_key self e
      = (Inl (Music163BadCode (JInt c) body), exchange (qr_request self qr_key) e)"
    using u_login_rejected [where remote = remote and e = e, OF assms(1) c(1) ne]
    by (simp add: qr_check_def qr_request_def)
  show ?thesis
    by (subst qr.simps) (use c(2) in \<open>auto simp add: chk py_in_def\<close>)
qed

lemma qr_expired_step:
  assumes "remote (served e) = Response body cookies"
    and "getitem body ''code'' = Inr (JInt 800)"
  shows "qr remote R qr_key time_sleep self e
           = Some (Inr (cookie self, \<lparr>api_cookie = cookie self\<rparr>), self,
                   exchange (qr_request self qr_key) e)"
proof -
  have chk: "qr_check remote R qr_key self e
      = (Inl (Music163BadCode (JInt 800) body), exchange (qr_request self qr_key) e)"
    using u_login_rejected [where remote = remote and e = e, OF assms]
    by (simp add: qr_check_def qr_request_def)
  show ?thesis
    by (subst qr.simps) (simp add: chk py_in_def)
qed

lemma qr_token_step:
  assumes "remote (served e) = Response body cookies"
    and "getitem body ''code'' = Inr (JInt 803)"
    and "u_SimpleCookieToCookieStr cookies \<noteq> []"
  shows "qr remote R qr_key time_sleep self e
           = Some (Inr (Some (u_SimpleCookieToCookieStr cookies),
                        \<lparr>api_cookie = Some (u_SimpleCookieToCookieStr cookies)\<rparr>),
                   self\<lparr>cookie := Some (u_SimpleCookieToCookieStr cookies)\<rparr>,
                   exchange (qr_request self qr_key) e)"
proof -
  have chk: "qr_check remote R qr_key self e
      = (Inr (u_SimpleCookieToCookieStr cookies), exchange (qr_request self qr_key) e)"
    using u_login_accepted [where remote = remote and e = e, OF assms(1,2)]
    by (simp add: qr_check_def qr_request_def)
  show ?thesis
    by (subst qr.simps) (simp add: chk assms(3) Let_def)
qed

lemma polled_0 [simp]: "polled req t 0 e = e"
  by (simp add: polled_def)

lemma polled_Suc: "polled req t k (sleep t (exchange req e)) = polled req t (Suc k) e"
  by (simp add: polled_def sleep_def exchange_def)

lemma qr_pending:
  "\<forall>i<k. \<exists>body cookies. remote (served e + i) = Response body cookies
      \<and> (getitem body ''code'' = Inr (JInt 801) \<or> getitem body ''code'' = Inr (JInt 802)) \<Longrightarrow>
   qr remote R qr_key time_sleep self e
     = qr remote R qr_key time_sleep self (polled (qr_request self qr_key) time_sleep k e)"
proof (induction k arbitrary: e)
  case 0
  show ?case by simp
next
  case (Suc k)
  let ?e1 = "sleep time_sleep (exchange (qr_request self qr_key) e)"
  have "\<exists>body cookies. remote (served e + 0) = Response body cookies
      \<and> (getitem body ''code'' = Inr (JInt 801) \<or> getitem body ''code'' = Inr (JInt 802))"
    by (rule Suc.prems [rule_format]) simp
  then obtain body cookies where
    first: "remote (served e) = Response body cookies"
      "getitem body ''code'' = Inr (JInt 801) \<or> getitem body ''code'' = Inr (JInt 802)"
    by auto
  have sv: "served ?e1 = Suc (served e)" by (simp add: sleep_def)
  have rest: "\<forall>i<k. \<exists>body cookies. remote (served ?e1 + i) = Response body cookies
      \<and> (getitem body ''code'' = Inr (JInt 801) \<or> getitem body ''code'' = Inr (JInt 802))"
  proof (intro allI impI)
    fix i assume "i < k"
    then have "Suc i < Suc k" by simp
    from Suc.prems [rule_format, OF this]
    show "\<exists>body cookies. remote (served ?e1 + i) = Response body cookies
      \<and> (getitem body ''code'' = Inr (JInt 801) \<or> getitem body ''code'' = Inr (JInt 802))"
      unfolding sv by simp
  qed
  have "qr remote R qr_key time_sleep self e = qr remote R qr_key time_sleep self ?e1"
    by (rule qr_pending_step [where remote = remote and e = e, OF first])
  also have "\<dots> = qr remote R qr_key time_sleep self
                    (polled (qr_request self qr_key) time_sleep k ?e1)"
    by (rule Suc.IH [OF rest])
  finally show ?case by (simp only: polled_Suc)
qed

lemma served_polled [simp]: "served (polled req t k e) = served e + k"
  by (simp add: polled_def)

text \<open>
  C5. For every sequence of remote QR statuses, \<^verbatim>\<open>qr\<close> sleeps and polls again on each
  801 and 802; when a poll is then answered 803 with a non-empty token it returns that
  token and a client built from it, and when it is answered 800 it returns, without
  raising, the token the object holds (possibly none) and a client built from it. After
  \<open>k\<close> answers 801 or 802 the result comes with the poll \<open>k + 1\<close>, after \<open>k\<close> sleeps:
  for 801, 801, 802, 803 with the fourth poll, for 801, 800 with the second.
\<close>

theorem qr_polls_until_terminal_status:
  assumes "\<forall>i<k. \<exists>body cookies. remote (served e + i) = Response body cookies
      \<and> (getitem body ''code'' = Inr (JInt 801) \<or> getitem body ''code'' = Inr (JInt 802))"
    and "remote (served e + k) = Response body cookies"
    and "getitem body ''code'' = Inr c"
  shows "(c = JInt 800 \<longrightarrow>
            qr remote R qr_key time_sleep self e
              = Some (Inr (cookie self, \<lparr>api_cookie = cookie self\<rparr>), self,
                      exchange (qr_request self qr_key)
                        (polled (qr_request self qr_key) time_sleep k e)))
       \<and> (c = JInt 803 \<and> u_SimpleCookieToCookieStr cookies \<noteq> [] \<longrightarrow>
            qr remote R qr_key time_sleep self e
              = Some (Inr (Some (u_SimpleCookieToCookieStr cookies),
                           \<lparr>api_cookie = Some (u_SimpleCookieToCookieStr cookies)\<rparr>),
                      self\<lparr>cookie := Some (u_SimpleCookieToCookieStr cookies)\<rparr>,
                      exchange (qr_request self qr_key)
                        (polled (qr_request self qr_key) time_sleep k e)))
       \<and> exchange (qr_request self qr_key) (polled (qr_request self qr_key) time_sleep k e)
           = \<lparr>served = served e + k + 1,
              trace = trace e
                      @ concat (replicate k [Post (qr_request self qr_key), Sleep time_sleep])
                      @ [Post (qr_request self qr_key)]\<rparr>"
proof -
  let ?ek = "polled (qr_request self qr_key) time_sleep k e"
  have run: "qr remote R qr_key time_sleep self e = qr remote R qr_key time_sleep self ?ek"
    by (rule qr_pending [OF assms(1)])
  have last: "remote (served ?ek) = Response body cookies"
    using assms(2) by simp
  have expired: "c = JInt 800 \<longrightarrow>
      qr remote R qr_key time_sleep self ?ek
        = Some (Inr (cookie self, \<lparr>api_cookie = cookie self\<rparr>), self,
                exchange (qr_request self qr_key) ?ek)"
    using qr_expired_step [where remote = remote and e = ?ek, OF last] assms(3) by simp
  have token: "c = JInt 803 \<and> u_SimpleCookieToCookieStr cookies \<noteq> [] \<longrightarrow>
      qr remote R qr_key time_sleep self ?ek
        = Some (Inr (Some (u_SimpleCookieToCookieStr cookies),
                     \<lparr>api_cookie = Some (u_SimpleCookieToCookieStr cookies)\<rparr>),
                self\<lparr>cookie := Some (u_SimpleCookieToCookieStr cookies)\<rparr>,
                exchange (qr_request self qr_key) ?ek)"
    using qr_token_step [where remote = remote and e = ?ek, OF last] assms(3) by simp
  have env: "exchange (qr_request self qr_key) ?ek
           = \<lparr>served = served e + k + 1,
              trace = trace e
                      @ concat (replicate k [Post (qr_request self qr_key), Sleep time_sleep])
                      @ [Post (qr_request self qr_key)]\<rparr>"
    by (simp add: exchange_def polled_def)
  from expired token env show ?thesis unfolding run by blast
qed

theorem qr_polls_until_terminal_status_witness:
  "qr_script_success 0 = Response (JObj [(''code'', JInt 801)]) []
   \<and> qr_script_success 1 = Response (JObj [(''code'', JInt 801)]) []
   \<and> qr_script_success 2 = Response (JObj [(''code'', JInt 802)]) []
   \<and> qr_script_success 3
       = Response (JObj [(''code'', JInt 803)])
           [(''MUSIC_U'', \<lparr>key = ''MUSIC_U'', coded_value = ''xyz'', attrs = [''Path=/'']\<rparr>)]
   \<and> qr qr_script_success 0 ''unikey'' 3 (LoginMusic163_init None) env0
       = Some (Inr (Some ''MUSIC_U=xyz; '', \<lparr>api_cookie = Some ''MUSIC_U=xyz; ''\<rparr>),
               \<lparr>cookie = Some ''MUSIC_U=xyz; '', hl = []\<rparr>,
               \<lparr>served = 4,
                trace = [Post (qr_request (LoginMusic163_init None) ''unikey''), Sleep 3,
                         Post (qr_request (LoginMusic163_init None) ''unikey''), Sleep 3,
                         Post (qr_request (LoginMusic163_init None) ''unikey''), Sleep 3,
                         Post (qr_request (LoginMusic163_init None) ''unikey'')]\<rparr>)
   \<and> qr_script_expired 0 = Response (JObj [(''code'', JInt 801)]) []
   \<and> qr_script_expired 1 = Response (JObj [(''code'', JInt 800)]) []
   \<and> qr qr_script_expired 0 ''unikey'' 3 (LoginMusic163_init None) env0
       = Some (Inr (None, \<lparr>api_cookie = None\<rparr>), LoginMusic163_init None,
               \<lparr>served = 2,
                trace = [Post (qr_request (LoginMusic163_init None) ''unikey''), Sleep 3,
                         Post (qr_request (LoginMusic163_init None) ''unikey'')]\<rparr>)"
proof -
  have s: "qr_script_success 0 = Response (JObj [(''code'', JInt 801)]) []"
    "qr_script_success 1 = Response (JObj [(''code'', JInt 801)]) []"
    "qr_script_success 2 = Response (JObj [(''code'', JInt 802)]) []"
    "qr_script_success 3
       = Response (JObj [(''code'', JInt 803)])
           [(''MUSIC_U'', \<lparr>key = ''MUSIC_U'', coded_value = ''xyz'', attrs = [''Path=/'']\<rparr>)]"
    by (simp_all add: qr_script_success_def script_of_def status_response_def)
  have x: "qr_script_expired 0 = Response (JObj [(''code'', JInt 801)]) []"
    "qr_script_expired 1 = Response (JObj [(''code'', JInt 800)]) []"
    by (simp_all add: qr_script_expired_def script_of_def status_response_def)
  have tok: "u_SimpleCookieToCookieStr
         [(''MUSIC_U'', \<lparr>key = ''MUSIC_U'', coded_value = ''xyz'', attrs = [''Path=/'']\<rparr>)]
       = ''MUSIC_U=xyz; ''"
    by (simp add: u_SimpleCookieToCookieStr_def cookie_data_def lstrip_def Morsel_str_def)
  have p3: "\<forall>i<3. \<exists>body cookies. qr_script_success (served env0 + i) = Response body cookies
      \<and> (getitem body ''code'' = Inr (JInt 801) \<or> getitem body ''code'' = Inr (JInt 802))"
  proof (intro allI impI)
    fix i :: nat assume "i < 3"
    then have "i = 0 \<or> i = 1 \<or> i = 2" by auto
    then show "\<exists>body cookies. qr_script_success (served env0 + i) = Response body cookies
      \<and> (getitem body ''code'' = Inr (JInt 801) \<or> getitem body ''code'' = Inr (JInt 802))"
      using s by auto
  qed
  have p1: "\<forall>i<1. \<exists>body cookies. qr_script_expired (served env0 + i) = Response body cookies
      \<and> (getitem body ''code'' = Inr (JInt 801) \<or> getitem body ''code'' = Inr (JInt 802))"
    using x by simp
  have l3: "qr_script_success (served env0 + 3)
       = Response (JObj [(''code'', JInt 803)])
           [(''MUSIC_U'', \<lparr>key = ''MUSIC_U'', coded_value = ''xyz'', attrs = [''Path=/'']\<rparr>)]"
    using s by simp
  have l1: "qr_script_expired (served env0 + 1) = Response (JObj [(''code'', JInt 800)]) []"
    using x by simp
  have g3: "getitem (JObj [(''code'', JInt 803)]) ''code'' = Inr (JInt 803)" by simp
  have g1: "getitem (JObj [(''code'', JInt 800)]) ''code'' = Inr (JInt 800)" by simp
  from qr_polls_until_terminal_status
         [where remote = qr_script_success and e = env0 and k = 3 and R = 0
            and qr_key = "''unikey''" and time_sleep = 3 and self = "LoginMusic163_init None",
          OF p3 l3 g3]
       qr_polls_until_terminal_status
         [where remote = qr_script_expired and e = env0 and k = 1 and R = 0
            and qr_key = "''unikey''" and time_sleep = 3 and self = "LoginMusic163_init None",
          OF p1 l1 g1]
  show ?thesis using s x tok
    by (simp add: LoginMusic163_init_def eval_nat_numeral)
qed

subsection \<open>The shared hash object\<close>

lemma try_result_status:
  "try_result (status_response c) =
     (if c = 200 \<or> c = 803 then Inr []
      else Inl (Music163BadCode (JInt c) (JObj [(''code'', JInt c)])))"
  by (simp add: status_response_def try_result_def py_in_def u_SimpleCookieToCookieStr_def)

text \<open>
  C6. \<^verbatim>\<open>_md5(s)\<close> returns the digest of \<^verbatim>\<open>s\<close> alone, whatever was hashed before on the
  same instance. The code does otherwise: the hash object is shared, and the second
  call returns the digest of both inputs concatenated; after an \<^verbatim>\<open>email\<close> login with
  password \<open>p1\<close>, a \<^verbatim>\<open>cellphone\<close> login with password \<open>p2\<close> posts the digest of
  \<open>p1 @ p2\<close>.
\<close>

theorem md5_accumulates_input:
  "fst (u_md5 md5_hex s2 (snd (u_md5 md5_hex s1 (LoginMusic163_init c)))) = md5_hex (s1 @ s2)
   \<and> fst (u_md5 md5_hex ''a'' (snd (u_md5 md5_hex ''a'' (LoginMusic163_init c)))) = md5_hex ''aa''
   \<and> email md5_hex (\<lambda>i. status_response 200) R address p1 (LoginMusic163_init None) env0
       = (Inr (Some [], \<lparr>api_cookie = Some []\<rparr>), \<lparr>cookie = Some [], hl = p1\<rparr>,
          \<lparr>served = 1,
           trace = [Post \<lparr>req_url = ''https://music.163.com/api/login'', req_cookie = None,
                          req_data = JObj [(''username'', JStr address),
                                           (''password'', JStr (md5_hex p1)),
                                           (''rememberLogin'', JStr ''true'')]\<rparr>]\<rparr>)
   \<and> cellphone md5_hex (\<lambda>i. status_response 200) R phone (PStr p2) False country_code
         \<lparr>cookie = Some [], hl = p1\<rparr> \<lparr>served = 1, trace = evs\<rparr>
       = (Inr (Some [], \<lparr>api_cookie = Some []\<rparr>), \<lparr>cookie = Some [], hl = p1 @ p2\<rparr>,
          \<lparr>served = 2,
           trace = evs @
                   [Post \<lparr>req_url = ''https://music.163.com/api/login/cellphone'', req_cookie = None,
                          req_data = JObj [(''phone'', form_value phone),
                                           (''countrycode'', form_value country_code),
                                           (''password'', JStr (md5_hex (p1 @ p2))),
                                           (''rememberLogin'', JStr ''true'')]\<rparr>]\<rparr>)"
  by (simp add: u_md5_def LoginMusic163_init_def Let_def email_def cellphone_def env0_def
        u_login_returns try_result_status exchange_def login_request_def)

subsection \<open>Playlists of more than 1000 tracks\<close>

lemma get_ids_entries:
  "get_ids (map track_id_entry xs) = Inr (map (\<lambda>i. JInt (int i)) xs)"
  by (induction xs) (simp_all add: track_id_entry_def)

lemma song_for_id_map: "map song_for_id (map (\<lambda>i. JInt (int i)) xs) = map song_of xs"
  by simp

lemma upt_1000_1001: "[1000..<1001] = [1000::nat]"
  by (simp add: upt_rec)

lemma upt_split_1000: "[0..<1000] @ [1000..<1500] = [0..<1500::nat]"
  using upt_add_eq_append [of 0 1000 500] by simp

text \<open>
  C8. For a playlist with more than 1000 track ids, \<^verbatim>\<open>playlist\<close> fetches the metadata
  once and then the remaining ids in chunks of at most 1000 through \<^verbatim>\<open>music\<close>,
  appending the songs in order. The code does so for 1500 ids (one follow-up call for
  the ids 1000..1499, 1500 tracks in order) and makes no follow-up call for 1000 ids,
  but for 1001 ids the follow-up call returns a single \<^verbatim>\<open>Music\<close> object, on which
  \<^verbatim>\<open>list(...)\<close> raises \<^verbatim>\<open>TypeError\<close>.
\<close>

theorem playlist_single_extra_track_raises:
  "playlist (playlist_transport 1001) (\<lambda>ids. ids) \<lparr>api_cookie = ck\<rparr> (JInt 1) []
     = (Inl TypeError,
        [\<lparr>req_url = ''/api/v6/playlist/detail'', req_cookie = ck,
          req_data = JObj [(''id'', JInt 1), (''n'', JInt 100000)]\<rparr>,
         \<lparr>req_url = ''/api/v3/song/detail'', req_cookie = ck,
          req_data = JObj [(''c'', JList [JInt 1000])]\<rparr>])
   \<and> playlist (playlist_transport 1500) (\<lambda>ids. ids) \<lparr>api_cookie = ck\<rparr> (JInt 1) []
     = (Inr (PlayList (JObj [(''id'', JInt 1),
                             (''trackIds'', JList (map track_id_entry [0..<1500])),
                             (''tracks'', JList (map song_of [0..<1500]))]) ck),
        [\<lparr>req_url = ''/api/v6/playlist/detail'', req_cookie = ck,
          req_data = JObj [(''id'', JInt 1), (''n'', JInt 100000)]\<rparr>,
         \<lparr>req_url = ''/api/v3/song/detail'', req_cookie = ck,
          req_data = JObj [(''c'', JList (map (\<lambda>i. JInt (int i)) [1000..<1500]))]\<rparr>])
   \<and> playlist (playlist_transport 1000) (\<lambda>ids. ids) \<lparr>api_cookie = ck\<rparr> (JInt 1) []
     = (Inr (PlayList (JObj [(''id'', JInt 1),
                             (''trackIds'', JList (map track_id_entry [0..<1000])),
                             (''tracks'', JList (map song_of [0..<1000]))]) ck),
        [\<lparr>req_url = ''/api/v6/playlist/detail'', req_cookie = ck,
          req_data = JObj [(''id'', JInt 1), (''n'', JInt 100000)]\<rparr>])"
proof (intro conjI)
  show "playlist (playlist_transport 1001) (\<lambda>ids. ids) \<lparr>api_cookie = ck\<rparr> (JInt 1) []
     = (Inl TypeError,
        [\<lparr>req_url = ''/api/v6/playlist/detail'', req_cookie = ck,
          req_data = JObj [(''id'', JInt 1), (''n'', JInt 100000)]\<rparr>,
         \<lparr>req_url = ''/api/v3/song/detail'', req_cookie = ck,
          req_data = JObj [(''c'', JList [JInt 1000])]\<rparr>])"
    by (simp add: playlist_def u_post_def playlist_transport_def get_ids_entries Let_def
          drop_map py_range0_def music_def upt_1000_1001 song_of_def
        del: upt_rec_numeral)
  show "playlist (playlist_transport 1500) (\<lambda>ids. ids) \<lparr>api_cookie = ck\<rparr> (JInt 1) []
     = (Inr (PlayList (JObj [(''id'', JInt 1),
                             (''trackIds'', JList (map track_id_entry [0..<1500])),
                             (''tracks'', JList (map song_of [0..<1500]))]) ck),
        [\<lparr>req_url = ''/api/v6/playlist/detail'', req_cookie = ck,
          req_data = JObj [(''id'', JInt 1), (''n'', JInt 100000)]\<rparr>,
         \<lparr>req_url = ''/api/v3/song/detail'', req_cookie = ck,
          req_data = JObj [(''c'', JList (map (\<lambda>i. JInt (int i)) [1000..<1500]))]\<rparr>])"
  proof -
    have "playlist (playlist_transport 1500) (\<lambda>ids. ids) \<lparr>api_cookie = ck\<rparr> (JInt 1) []
     = (Inr (PlayList (JObj [(''id'', JInt 1),
                             (''trackIds'', JList (map track_id_entry [0..<1500])),
                             (''tracks'', JList (map song_of [0..<1000] @ map song_of [1000..<1500]))]) ck),
        [\<lparr>req_url = ''/api/v6/playlist/detail'', req_cookie = ck,
          req_data = JObj [(''id'', JInt 1), (''n'', JInt 100000)]\<rparr>,
         \<lparr>req_url = ''/api/v3/song/detail'', req_cookie = ck,
          req_data = JObj [(''c'', JList (map (\<lambda>i. JInt (int i)) [1000..<1500]))]\<rparr>])"
      by (simp add: playlist_def u_post_def playlist_transport_def get_ids_entries Let_def
            drop_map py_range0_def music_def iadd_tracks_def comp_def
          del: upt_rec_numeral)
    then show ?thesis by (simp only: map_append [symmetric] upt_split_1000)
  qed
  show "playlist (playlist_transport 1000) (\<lambda>ids. ids) \<lparr>api_cookie = ck\<rparr> (JInt 1) []
     = (Inr (PlayList (JObj [(''id'', JInt 1),
                             (''trackIds'', JList (map track_id_entry [0..<1000])),
                             (''tracks'', JList (map song_of [0..<1000]))]) ck),
        [\<lparr>req_url = ''/api/v6/playlist/detail'', req_cookie = ck,
          req_data = JObj [(''id'', JInt 1), (''n'', JInt 100000)]\<rparr>])"
    by (simp add: playlist_def u_post_def playlist_transport_def get_ids_entries Let_def
        del: upt_rec_numeral)
qed

subsection \<open>The current user\<close>

text \<open>
  C9, as stated, fails where the \<^verbatim>\<open>profile\<close> field is missing: the subscript
  \<^verbatim>\<open>data["profile"]\<close> raises \<^verbatim>\<open>KeyError\<close> before the test against \<^verbatim>\<open>None\<close>.
\<close>

theorem my_missing_profile_counterexample:
  "map_of [(''code'', JInt 200)] ''profile'' = None
   \<and> my (\<lambda>calls r. Inr (JObj [(''code'', JInt 200)])) \<lparr>api_cookie = Some ''MUSIC_U=xyz; ''\<rparr> []
       = (Inl (KeyError ''profile''), [whoami_request \<lparr>api_cookie = Some ''MUSIC_U=xyz; ''\<rparr>])
   \<and> fst (my (\<lambda>calls r. Inr (JObj [(''code'', JInt 200)])) \<lparr>api_cookie = Some ''MUSIC_U=xyz; ''\<rparr> [])
       \<noteq> Inl (Music163BadData (JObj [(''code'', JInt 200)]))"
  by (simp add: my_def u_post_def whoami_request_def)

text \<open>
  C9, as amended. When the call behind \<^verbatim>\<open>my\<close> returns a JSON object, \<^verbatim>\<open>my\<close> raises
  \<^verbatim>\<open>Music163BadData\<close> carrying the response exactly when the object has a \<^verbatim>\<open>profile\<close>
  field whose value is null; when the field is missing it raises \<^verbatim>\<open>KeyError\<close>, and
  otherwise it returns a \<^verbatim>\<open>My\<close> object built from the response and the current
  cookie.
\<close>

theorem my_bad_data_iff_profile_null:
  assumes "post calls (whoami_request self) = Inr (JObj kvs)"
  shows "(fst (my post self calls) = Inl (Music163BadData (JObj kvs))
            \<longleftrightarrow> map_of kvs ''profile'' = Some JNull)
       \<and> fst (my post self calls)
           = (case map_of kvs ''profile'' of
                None \<Rightarrow> Inl (KeyError ''profile'')
              | Some profile \<Rightarrow>
                  if profile = JNull then Inl (Music163BadData (JObj kvs))
                  else Inr (My (JObj kvs) (api_cookie self)))
       \<and> snd (my post self calls) = calls @ [whoami_request self]"
  using assms
  by (auto simp add: my_def u_post_def whoami_request_def Let_def split: option.splits)

theorem my_bad_data_iff_profile_null_witness:
  "(\<lambda>calls r. Inr (JObj [(''code'', JInt 200), (''account'', JNull), (''profile'', JNull)]))
      [] (whoami_request \<lparr>api_cookie = None\<rparr>)
     = Inr (JObj [(''code'', JInt 200), (''account'', JNull), (''profile'', JNull)])
   \<and> fst (my (\<lambda>calls r. Inr (JObj [(''code'', JInt 200), (''account'', JNull), (''profile'', JNull)]))
            \<lparr>api_cookie = None\<rparr> [])
       = Inl (Music163BadData (JObj [(''code'', JInt 200), (''account'', JNull), (''profile'', JNull)]))
   \<and> fst (my (\<lambda>calls r. Inr (JObj [(''code'', JInt 200), (''profile'', JObj [(''userId'', JInt 7)])]))
            \<lparr>api_cookie = Some ''MUSIC_U=xyz; ''\<rparr> [])
       = Inr (My (JObj [(''code'', JInt 200), (''profile'', JObj [(''userId'', JInt 7)])])
                (Some ''MUSIC_U=xyz; ''))"
  using my_bad_data_iff_profile_null
          [of "\<lambda>calls r. Inr (JObj [(''code'', JInt 200), (''account'', JNull), (''profile'', JNull)])"
              "[]" "\<lparr>api_cookie = None\<rparr>"
              "[(''code'', JInt 200), (''account'', JNull), (''profile'', JNull)]"]
        my_bad_data_iff_profile_null
          [of "\<lambda>calls r. Inr (JObj [(''code'', JInt 200), (''profile'', JObj [(''userId'', JInt 7)])])"
              "[]" "\<lparr>api_cookie = Some ''MUSIC_U=xyz; ''\<rparr>"
              "[(''code'', JInt 200), (''profile'', JObj [(''userId'', JInt 7)])]"]
  by simp

end
